theory Spec2Isabelle
  imports Main
begin

section \<open>Values, exceptions and the environment\<close>

text \<open>
  The repository is a FastAPI backend: \<^verbatim>\<open>pydantic_models.py\<close> declares the request and
  response models with their field validators, \<^verbatim>\<open>main.py\<close> the routes, and
  \<^verbatim>\<open>data_manager_interface.py\<close> the abstract data manager the routes call. A request body
  is a JSON object, modelled as a map from field names to values. Values are taken after
  JSON decoding and after pydantic's conversion of a JSON string or number into the
  Python object of the annotated type, so a date arrives as \<open>VDate\<close>, an explicit JSON
  \<^verbatim>\<open>null\<close> as \<open>VNone\<close>, and a key that the body leaves out is absent from the map.
  A Python string is the list of its Unicode code points; \<open>str\<close> gives the Python
  string of a literal. Field names and the messages of exceptions stay literals.
\<close>

type_synonym pystr = "nat list"

definition str :: "string \<Rightarrow> pystr" where
  "str s = map of_char s"

record date =
  year :: int
  month :: int
  day :: int

record time =
  hour :: int
  minute :: int
  second :: int
  microsecond :: int

datatype val =
    VNone
  | VBool bool
  | VInt int
  | VStr pystr
  | VDecimal int nat  \<comment> \<open>unscaled digits and the number of decimal places\<close>
  | VDate date
  | VTime time
  | VDateTime date time
  | VTimedelta int  \<comment> \<open>microseconds\<close>
  | VList "val list"

type_synonym obj = "string \<rightharpoonup> val"

text \<open>
  Exceptions a validator can raise. pydantic turns a \<open>ValueError\<close> into a validation
  error of the request; any other exception leaves the validation unhandled.
\<close>

datatype exn = ValueError string | TypeError | AttributeError | ResponseValidationError

datatype error =
    VALIDATION_ERROR
  | NOT_FOUND
  | FORBIDDEN
  | CONFLICT
  | UNAVAILABLE
  | TERMINAL_STATE
  | UNHANDLED exn

datatype ty =
    TStr
  | TInt
  | TBool
  | TDecimal nat  \<comment> \<open>\<^verbatim>\<open>Decimal\<close> with \<^verbatim>\<open>Field(decimal_places=n)\<close>\<close>
  | TEmailStr
  | THttpUrl
  | TDate
  | TTime
  | TDateTime
  | TTimedelta
  | TList ty
  | TOptional ty

text \<open>A pydantic model class: its fields in order (name, annotation, default when there
  is one) and its \<^verbatim>\<open>@field_validator\<close> methods with the fields each is registered for.\<close>

record pydantic_model =
  model_fields :: "(string \<times> ty \<times> val option) list"
  field_validators :: "(string list \<times> (val \<Rightarrow> exn + val)) list"

text \<open>
  What the files under \<^verbatim>\<open>src/\<close> leave to their surroundings: the table of the
  \<^verbatim>\<open>iso4217\<close> package behind \<^verbatim>\<open>Currency\<close>, the clock behind \<^verbatim>\<open>date.today()\<close>, the
  syntax checks of \<^verbatim>\<open>EmailStr\<close> and \<^verbatim>\<open>HttpUrl\<close>, and the model
  \<^verbatim>\<open>AccommodationUpdatePydantic\<close>, which \<^verbatim>\<open>main.py\<close> names and \<^verbatim>\<open>pydantic_models.py\<close>
  does not declare.
\<close>

record env =
  env_Currency :: "pystr list"
  env_today :: date
  env_now :: val
  env_EmailStr :: "pystr \<Rightarrow> bool"
  env_HttpUrl :: "pystr \<Rightarrow> bool"
  env_AccommodationUpdatePydantic :: pydantic_model

section \<open>Regular expressions as backtracking matchers\<close>

text \<open>
  A matcher maps the rest of the input to the list of rests it can leave, in the order
  in which Python's backtracking engine tries them; \<^verbatim>\<open>re.match\<close> succeeds when the
  pattern leaves some rest. \<^verbatim>\<open>$\<close> matches at the end of the string and just before a
  newline that ends it.
\<close>

type_synonym matcher = "pystr \<Rightarrow> pystr list"

definition re_char :: "nat \<Rightarrow> matcher" where
  "re_char x s = (case s of [] \<Rightarrow> [] | c # cs \<Rightarrow> if c = x then [cs] else [])"

definition re_class :: "(nat \<Rightarrow> bool) \<Rightarrow> matcher" where
  "re_class p s = (case s of [] \<Rightarrow> [] | c # cs \<Rightarrow> if p c then [cs] else [])"

definition re_opt :: "matcher \<Rightarrow> matcher" where
  "re_opt m s = m s @ [s]"

fun re_plus_class :: "(nat \<Rightarrow> bool) \<Rightarrow> matcher" where
  "re_plus_class p [] = []"
| "re_plus_class p (c # cs) = (if p c then re_plus_class p cs @ [cs] else [])"

definition re_seq :: "matcher \<Rightarrow> matcher \<Rightarrow> matcher" where
  "re_seq m1 m2 s = concat (map m2 (m1 s))"

definition re_bol :: matcher where
  "re_bol s = [s]"

text \<open>The newline is the code point 10.\<close>

definition re_eol :: matcher where
  "re_eol s = (if s = [] \<or> s = [10] then [s] else [])"

definition re_match :: "matcher \<Rightarrow> pystr \<Rightarrow> bool" where
  "re_match m s = (m s \<noteq> [])"

text \<open>\<^verbatim>\<open>\d\<close> of a \<^verbatim>\<open>str\<close> pattern is every Unicode decimal digit (category Nd), \<^verbatim>\<open>\s\<close>
  every Unicode whitespace character, as \<^verbatim>\<open>str.isspace\<close> has it. The tables are those of
  Python 3.11 (Unicode 14), as ranges of code points: the ASCII digits are 48 to 57, the
  Arabic-Indic digits 1632 to 1641; tab to carriage return are 9 to 13, the space is 32,
  the em space 8195.\<close>

definition in_ranges :: "(nat \<times> nat) list \<Rightarrow> nat \<Rightarrow> bool" where
  "in_ranges rs c = list_ex (\<lambda>(lo, hi). lo \<le> c \<and> c \<le> hi) rs"

definition unicode_decimal_digits :: "(nat \<times> nat) list" where
  "unicode_decimal_digits = [
     (48, 57), (1632, 1641), (1776, 1785), (1984, 1993), (2406, 2415), (2534, 2543),
     (2662, 2671), (2790, 2799), (2918, 2927), (3046, 3055), (3174, 3183), (3302, 3311),
     (3430, 3439), (3558, 3567), (3664, 3673), (3792, 3801), (3872, 3881), (4160, 4169),
     (4240, 4249), (6112, 6121), (6160, 6169), (6470, 6479), (6608, 6617), (6784, 6793),
     (6800, 6809), (6992, 7001), (7088, 7097), (7232, 7241), (7248, 7257), (42528, 42537),
     (43216, 43225), (43264, 43273), (43472, 43481), (43504, 43513), (43600, 43609),
     (44016, 44025), (65296, 65305), (66720, 66729), (68912, 68921), (69734, 69743),
     (69872, 69881), (69942, 69951), (70096, 70105), (70384, 70393), (70736, 70745),
     (70864, 70873), (71248, 71257), (71360, 71369), (71472, 71481), (71904, 71913),
     (72016, 72025), (72784, 72793), (73040, 73049), (73120, 73129), (92768, 92777),
     (92864, 92873), (93008, 93017), (120782, 120831), (123200, 123209), (123632, 123641),
     (125264, 125273), (130032, 130041)]"

definition unicode_whitespace :: "(nat \<times> nat) list" where
  "unicode_whitespace = [
     (9, 13), (28, 32), (133, 133), (160, 160), (5760, 5760), (8192, 8202), (8232, 8233),
     (8239, 8239), (8287, 8287), (12288, 12288)]"

definition re_digit :: "nat \<Rightarrow> bool" where
  "re_digit c = in_ranges unicode_decimal_digits c"

definition re_space :: "nat \<Rightarrow> bool" where
  "re_space c = in_ranges unicode_whitespace c"

text \<open>The class \<^verbatim>\<open>[\d\s\-]\<close> and the pattern \<^verbatim>\<open>^\+?\d[\d\s\-]+$\<close>; the plus sign is the
  code point 43, the dash 45.\<close>

definition phone_class :: "nat \<Rightarrow> bool" where
  "phone_class c = (re_digit c \<or> re_space c \<or> c = 45)"

definition phone_number_pattern :: matcher where
  "phone_number_pattern =
     re_seq re_bol (re_seq (re_opt (re_char 43))
       (re_seq (re_class re_digit) (re_seq (re_plus_class phone_class) re_eol)))"

section \<open>The field validators of \<^verbatim>\<open>pydantic_models.py\<close>\<close>

text \<open>\<^verbatim>\<open>validate_phone_number\<close> (the same body in \<^verbatim>\<open>UserCreatePydantic\<close>,
  \<^verbatim>\<open>UserNoPwdPydantic\<close>, \<^verbatim>\<open>UserUpdatePydantic\<close> and \<^verbatim>\<open>AccommodationPydantic\<close>).
  \<^verbatim>\<open>re.match\<close> raises \<open>TypeError\<close> on an argument that is not a string.\<close>

definition validate_phone_number :: "val \<Rightarrow> exn + val" where
  "validate_phone_number v =
     (case v of
        VStr s \<Rightarrow>
          if \<not> re_match phone_number_pattern s
          then Inl (ValueError ''Invalid telephone number format'')
          else Inr v
      | _ \<Rightarrow> Inl TypeError)"

text \<open>\<^verbatim>\<open>Currency(v)\<close>: the enumeration's lookup by value raises \<open>ValueError\<close> for every
  value that is not the code of a member.\<close>

definition Currency :: "env \<Rightarrow> val \<Rightarrow> exn + val" where
  "Currency e v =
     (case v of
        VStr s \<Rightarrow> if s \<in> set (env_Currency e) then Inr v
                  else Inl (ValueError ''is not a valid Currency'')
      | _ \<Rightarrow> Inl (ValueError ''is not a valid Currency''))"

definition validate_currency_code :: "env \<Rightarrow> val \<Rightarrow> exn + val" where
  "validate_currency_code e v =
     (case Currency e v of
        Inr _ \<Rightarrow> Inr v
      | Inl (ValueError _) \<Rightarrow> Inl (ValueError ''Invalid ISO 4217 currency code'')
      | Inl x \<Rightarrow> Inl x)"

text \<open>Python's truth value of an object, attribute access that raises \<open>AttributeError\<close>
  on an object without the attribute, and the short-circuit \<^verbatim>\<open>and\<close> and \<^verbatim>\<open>or\<close>: the
  right operand is evaluated (and can raise) only when the left one does not decide.\<close>

definition truthy :: "val \<Rightarrow> bool" where
  "truthy v =
     (case v of
        VNone \<Rightarrow> False
      | VBool b \<Rightarrow> b
      | VInt i \<Rightarrow> i \<noteq> 0
      | VStr s \<Rightarrow> s \<noteq> []
      | VDecimal m _ \<Rightarrow> m \<noteq> 0
      | VTimedelta d \<Rightarrow> d \<noteq> 0
      | VList vs \<Rightarrow> vs \<noteq> []
      | _ \<Rightarrow> True)"

definition attr_hour :: "val \<Rightarrow> exn + int" where
  "attr_hour v =
     (case v of VTime t \<Rightarrow> Inr (hour t) | VDateTime _ t \<Rightarrow> Inr (hour t) | _ \<Rightarrow> Inl AttributeError)"

definition attr_minute :: "val \<Rightarrow> exn + int" where
  "attr_minute v =
     (case v of VTime t \<Rightarrow> Inr (minute t) | VDateTime _ t \<Rightarrow> Inr (minute t) | _ \<Rightarrow> Inl AttributeError)"

definition total_seconds :: "val \<Rightarrow> exn + int" where
  "total_seconds v = (case v of VTimedelta us \<Rightarrow> Inr us | _ \<Rightarrow> Inl AttributeError)"

definition py_test :: "('a \<Rightarrow> bool) \<Rightarrow> exn + 'a \<Rightarrow> exn + bool" where
  "py_test p a = (case a of Inl x \<Rightarrow> Inl x | Inr y \<Rightarrow> Inr (p y))"

definition py_and :: "exn + bool \<Rightarrow> exn + bool \<Rightarrow> exn + bool" where
  "py_and a b = (case a of Inl x \<Rightarrow> Inl x | Inr p \<Rightarrow> if p then b else Inr False)"

definition py_or :: "exn + bool \<Rightarrow> exn + bool \<Rightarrow> exn + bool" where
  "py_or a b = (case a of Inl x \<Rightarrow> Inl x | Inr p \<Rightarrow> if p then Inr True else b)"

text \<open>\<^verbatim>\<open>validate_time_range\<close> (the same body in \<^verbatim>\<open>EventPydantic\<close> and
  \<^verbatim>\<open>EventUpdatePydantic\<close>). \<^verbatim>\<open>and\<close> binds tighter than \<^verbatim>\<open>or\<close>, so the condition reads
  \<^verbatim>\<open>(time_val and time_val.hour < 0) or time_val.hour > 23 or time_val.minute < 0 or
  time_val.minute > 59\<close>.\<close>

definition validate_time_range :: "val \<Rightarrow> exn + val" where
  "validate_time_range time_val =
     (case py_or (py_or (py_or
              (py_and (Inr (truthy time_val)) (py_test (\<lambda>h. h < 0) (attr_hour time_val)))
              (py_test (\<lambda>h. h > 23) (attr_hour time_val)))
              (py_test (\<lambda>m. m < 0) (attr_minute time_val)))
              (py_test (\<lambda>m. m > 59) (attr_minute time_val)) of
        Inl x \<Rightarrow> Inl x
      | Inr True \<Rightarrow> Inl (ValueError ''Time values must be within a valid 24-hour range'')
      | Inr False \<Rightarrow> Inr time_val)"

definition validate_duration :: "val \<Rightarrow> exn + val" where
  "validate_duration duration =
     (case py_test (\<lambda>us. us \<le> 0) (total_seconds duration) of
        Inl x \<Rightarrow> Inl x
      | Inr True \<Rightarrow> Inl (ValueError ''Duration must be a positive time interval'')
      | Inr False \<Rightarrow> Inr duration)"

text \<open>Dates compare as \<^verbatim>\<open>(year, month, day)\<close>; \<^verbatim>\<open><\<close> between a date and an object
  that is not a date raises \<open>TypeError\<close>.\<close>

definition date_lt :: "date \<Rightarrow> date \<Rightarrow> bool" where
  "date_lt a b =
     (year a < year b \<or> (year a = year b \<and> (month a < month b \<or> (month a = month b \<and> day a < day b))))"

definition validate_future_date :: "env \<Rightarrow> val \<Rightarrow> exn + val" where
  "validate_future_date e date_val =
     (let today = env_today e in
      case date_val of
        VDate d \<Rightarrow>
          if date_lt d today then Inl (ValueError ''Date must be today or in the future'')
          else Inr date_val
      | _ \<Rightarrow> Inl TypeError)"

section \<open>The models of \<^verbatim>\<open>pydantic_models.py\<close>\<close>

definition required :: "string \<Rightarrow> ty \<Rightarrow> string \<times> ty \<times> val option" where
  "required n t = (n, t, None)"

definition defaulted :: "string \<Rightarrow> ty \<Rightarrow> val \<Rightarrow> string \<times> ty \<times> val option" where
  "defaulted n t d = (n, t, Some d)"

definition UserCreatePydantic :: pydantic_model where
  "UserCreatePydantic = \<lparr>
     model_fields = [
       required ''username'' TStr,
       required ''type_of_entity'' TStr,
       required ''password'' TStr,
       required ''name'' TStr,
       required ''surname'' TStr,
       required ''email_address'' TEmailStr,
       required ''phone_number'' TStr,
       defaulted ''vat_id'' (TOptional TStr) VNone,
       defaulted ''bank_account'' (TOptional TStr) VNone,
       defaulted ''is_active'' TBool (VBool True),
       defaulted ''deactivation_date'' (TOptional TDateTime) VNone,
       defaulted ''delete_at'' (TOptional TDateTime) VNone],
     field_validators = [([''phone_number''], validate_phone_number)]\<rparr>"

definition UserNoPwdPydantic :: pydantic_model where
  "UserNoPwdPydantic = \<lparr>
     model_fields = [
       required ''id'' TInt,
       required ''username'' TStr,
       required ''type_of_entity'' TStr,
       required ''name'' TStr,
       required ''surname'' TStr,
       required ''email_address'' TEmailStr,
       required ''phone_number'' TStr,
       defaulted ''vat_id'' (TOptional TStr) VNone,
       defaulted ''bank_account'' (TOptional TStr) VNone,
       required ''is_active'' TBool,
       defaulted ''deactivation_date'' (TOptional TDateTime) VNone,
       defaulted ''delete_at'' (TOptional TDateTime) VNone],
     field_validators = [([''phone_number''], validate_phone_number)]\<rparr>"

definition UserUpdatePydantic :: pydantic_model where
  "UserUpdatePydantic = \<lparr>
     model_fields = [
       defaulted ''username'' (TOptional TStr) VNone,
       defaulted ''type_of_entity'' (TOptional TStr) VNone,
       defaulted ''name'' (TOptional TStr) VNone,
       defaulted ''surname'' (TOptional TStr) VNone,
       defaulted ''email_address'' (TOptional TEmailStr) VNone,
       defaulted ''phone_number'' (TOptional TStr) VNone,
       defaulted ''vat_id'' (TOptional TStr) VNone,
       defaulted ''bank_account'' (TOptional TStr) VNone,
       defaulted ''is_active'' (TOptional TBool) VNone,
       defaulted ''deactivation_date'' (TOptional TDateTime) VNone,
       defaulted ''delete_at'' (TOptional TDateTime) VNone],
     field_validators = [([''phone_number''], validate_phone_number)]\<rparr>"

definition ProfilePydantic :: pydantic_model where
  "ProfilePydantic = \<lparr>
     model_fields = [
       required ''name'' TStr,
       required ''performance_type'' TStr,
       required ''description'' TStr,
       required ''bio'' TStr,
       required ''social_media'' (TList (TOptional THttpUrl)),
       defaulted ''stage_plan'' (TOptional THttpUrl) VNone,
       defaulted ''tech_rider'' (TOptional THttpUrl) VNone,
       required ''photos'' (TList (TOptional THttpUrl)),
       required ''videos'' (TList (TOptional THttpUrl)),
       required ''audios'' (TList (TOptional THttpUrl)),
       required ''online_press'' (TList (TOptional THttpUrl)),
       defaulted ''website'' (TOptional THttpUrl) VNone],
     field_validators = []\<rparr>"

definition ProfileUpdatePydantic :: pydantic_model where
  "ProfileUpdatePydantic = \<lparr>
     model_fields = [
       required ''name'' (TOptional TStr),
       required ''performance_type'' (TOptional TStr),
       required ''description'' (TOptional TStr),
       required ''bio'' (TOptional TStr),
       required ''social_media'' (TList (TOptional THttpUrl)),
       defaulted ''stage_plan'' (TOptional THttpUrl) VNone,
       required ''photos'' (TList (TOptional THttpUrl)),
       required ''videos'' (TList (TOptional THttpUrl)),
       required ''audios'' (TList (TOptional THttpUrl)),
       required ''online_press'' (TList (TOptional THttpUrl)),
       defaulted ''website'' (TOptional THttpUrl) VNone],
     field_validators = []\<rparr>"

definition ContractPydantic :: "env \<Rightarrow> pydantic_model" where
  "ContractPydantic e = \<lparr>
     model_fields = [
       required ''name'' TStr,
       required ''offeree_id'' TInt,
       required ''total_fee'' (TDecimal 2),
       required ''currency_code'' TStr,
       required ''upon_signing'' TInt,
       required ''upon_completion'' TInt,
       required ''payment_method'' TStr,
       defaulted ''travel_expenses'' (TOptional (TDecimal 2)) VNone,
       defaulted ''accommodation_expenses'' (TOptional (TDecimal 2)) VNone,
       defaulted ''other_expenses'' (TOptional (TDecimal 2)) VNone,
       defaulted ''disabled'' TBool (VBool False),
       defaulted ''disabled_at'' (TOptional TDateTime) VNone,
       defaulted ''signed_at'' (TOptional TDateTime) VNone,
       defaulted ''delete_at'' (TOptional TDateTime) VNone],
     field_validators = [([''currency_code''], validate_currency_code e)]\<rparr>"

text \<open>In \<^verbatim>\<open>ContractUpdatePydantic\<close> the first seven fields are annotated \<^verbatim>\<open>Optional[...]\<close>
  without a default (\<^verbatim>\<open>total_fee\<close> with a \<^verbatim>\<open>Field\<close> that gives none): the key must be
  present, its value may be \<^verbatim>\<open>null\<close>. The four fields \<^verbatim>\<open>disabled\<close>, \<^verbatim>\<open>disabled_at\<close>,
  \<^verbatim>\<open>signed_at\<close> and \<^verbatim>\<open>delete_at\<close> are commented out in the source.\<close>

definition ContractUpdatePydantic :: "env \<Rightarrow> pydantic_model" where
  "ContractUpdatePydantic e = \<lparr>
     model_fields = [
       required ''name'' (TOptional TStr),
       required ''offeree_id'' (TOptional TInt),
       required ''total_fee'' (TOptional (TDecimal 2)),
       required ''currency_code'' (TOptional TStr),
       required ''upon_signing'' (TOptional TInt),
       required ''upon_completion'' (TOptional TInt),
       required ''payment_method'' (TOptional TStr),
       defaulted ''travel_expenses'' (TOptional (TDecimal 2)) VNone,
       defaulted ''accommodation_expenses'' (TOptional (TDecimal 2)) VNone,
       defaulted ''other_expenses'' (TOptional (TDecimal 2)) VNone],
     field_validators = [([''currency_code''], validate_currency_code e)]\<rparr>"

definition EventPydantic :: "env \<Rightarrow> pydantic_model" where
  "EventPydantic e = \<lparr>
     model_fields = [
       defaulted ''id'' (TOptional TInt) VNone,
       defaulted ''created_at'' (TOptional TDateTime) VNone,
       required ''name'' TStr,
       required ''contract_id'' TInt,
       required ''profile_offeror_id'' TInt,
       required ''profile_offeree_id'' TInt,
       defaulted ''contact_person'' (TOptional TStr) VNone,
       defaulted ''contact_phone'' (TOptional TStr) VNone,
       required ''date'' TDate,
       required ''duration'' TTimedelta,
       required ''start'' TTime,
       required ''end'' TTime,
       defaulted ''arrive'' (TOptional TDateTime) VNone,
       defaulted ''stage_set'' (TOptional TTime) VNone,
       defaulted ''stage_check'' (TOptional TTime) VNone,
       defaulted ''catering_open'' (TOptional TTime) VNone,
       defaulted ''catering_close'' (TOptional TTime) VNone,
       defaulted ''meal_time'' (TOptional TTime) VNone,
       required ''meal_location_name'' TStr,
       required ''meal_location_address'' TStr,
       defaulted ''accommodation_id'' (TOptional TInt) VNone],
     field_validators = [
       ([''start'', ''arrive'', ''stage_set'', ''stage_check'', ''catering_open'',
         ''catering_close'', ''meal_time''], validate_time_range),
       ([''duration''], validate_duration),
       ([''date''], validate_future_date e)]\<rparr>"

definition EventUpdatePydantic :: "env \<Rightarrow> pydantic_model" where
  "EventUpdatePydantic e = \<lparr>
     model_fields = [
       required ''name'' (TOptional TStr),
       required ''contract_id'' (TOptional TInt),
       required ''profile_offeror_id'' (TOptional TInt),
       required ''profile_offeree_id'' (TOptional TInt),
       defaulted ''contact_person'' (TOptional TStr) VNone,
       defaulted ''contact_phone'' (TOptional TStr) VNone,
       required ''date'' (TOptional TDate),
       required ''duration'' (TOptional TTimedelta),
       required ''start'' (TOptional TTime),
       required ''end'' (TOptional TTime),
       defaulted ''arrive'' (TOptional TDateTime) VNone,
       defaulted ''stage_set'' (TOptional TTime) VNone,
       defaulted ''stage_check'' (TOptional TTime) VNone,
       defaulted ''catering_open'' (TOptional TTime) VNone,
       defaulted ''catering_close'' (TOptional TTime) VNone,
       defaulted ''meal_time'' (TOptional TTime) VNone,
       required ''meal_location_name'' (TOptional TStr),
       required ''meal_location_address'' (TOptional TStr),
       defaulted ''accommodation_id'' (TOptional TInt) VNone],
     field_validators = [
       ([''start'', ''arrive'', ''stage_set'', ''stage_check'', ''catering_open'',
         ''catering_close'', ''meal_time''], validate_time_range),
       ([''duration''], validate_duration),
       ([''date''], validate_future_date e)]\<rparr>"

definition AccommodationPydantic :: pydantic_model where
  "AccommodationPydantic = \<lparr>
     model_fields = [
       defaulted ''id'' (TOptional TInt) VNone,
       required ''name'' TStr,
       required ''contact_person'' TStr,
       required ''address'' TStr,
       required ''telephone_number'' TStr,
       defaulted ''email'' (TOptional TEmailStr) VNone,
       defaulted ''website'' (TOptional THttpUrl) VNone,
       defaulted ''url'' (TOptional THttpUrl) VNone,
       defaulted ''check_in'' (TOptional TDateTime) VNone,
       defaulted ''check_out'' (TOptional TDateTime) VNone],
     field_validators = [([''telephone_number''], validate_phone_number)]\<rparr>"

section \<open>Validation of a body against a model\<close>

text \<open>\<^verbatim>\<open>decimal_places\<close> bounds the places of the normalized number, that is after the
  trailing zeros are dropped: 1500.000 has none.\<close>

fun decimal_places :: "int \<Rightarrow> nat \<Rightarrow> nat" where
  "decimal_places m 0 = 0"
| "decimal_places m (Suc k) = (if m mod 10 = 0 then decimal_places (m div 10) k else Suc k)"

fun type_ok :: "env \<Rightarrow> ty \<Rightarrow> val \<Rightarrow> bool" where
  "type_ok e TStr v = (case v of VStr _ \<Rightarrow> True | _ \<Rightarrow> False)"
| "type_ok e TInt v = (case v of VInt _ \<Rightarrow> True | _ \<Rightarrow> False)"
| "type_ok e TBool v = (case v of VBool _ \<Rightarrow> True | _ \<Rightarrow> False)"
| "type_ok e (TDecimal n) v = (case v of VDecimal m k \<Rightarrow> decimal_places m k \<le> n | _ \<Rightarrow> False)"
| "type_ok e TEmailStr v = (case v of VStr s \<Rightarrow> env_EmailStr e s | _ \<Rightarrow> False)"
| "type_ok e THttpUrl v = (case v of VStr s \<Rightarrow> env_HttpUrl e s | _ \<Rightarrow> False)"
| "type_ok e TDate v = (case v of VDate _ \<Rightarrow> True | _ \<Rightarrow> False)"
| "type_ok e TTime v = (case v of VTime _ \<Rightarrow> True | _ \<Rightarrow> False)"
| "type_ok e TDateTime v = (case v of VDateTime _ _ \<Rightarrow> True | _ \<Rightarrow> False)"
| "type_ok e TTimedelta v = (case v of VTimedelta _ \<Rightarrow> True | _ \<Rightarrow> False)"
| "type_ok e (TList t) v = (case v of VList vs \<Rightarrow> list_all (type_ok e t) vs | _ \<Rightarrow> False)"
| "type_ok e (TOptional t) v = (v = VNone \<or> type_ok e t v)"

text \<open>A validated instance: the value of every field, and \<^verbatim>\<open>model_fields_set\<close>, the
  fields the body gave explicitly (an explicit \<^verbatim>\<open>null\<close> included).\<close>

record BaseModel =
  field_values :: obj
  model_fields_set :: "string set"

datatype field_result = Invalid | Raised exn | Default val | Given val

definition validators_of :: "pydantic_model \<Rightarrow> string \<Rightarrow> (val \<Rightarrow> exn + val) list" where
  "validators_of M n = map snd (filter (\<lambda>(ns, f). n \<in> set ns) (field_validators M))"

fun run_validators :: "(val \<Rightarrow> exn + val) list \<Rightarrow> val \<Rightarrow> exn + val" where
  "run_validators [] v = Inr v"
| "run_validators (f # fs) v = (case f v of Inl x \<Rightarrow> Inl x | Inr w \<Rightarrow> run_validators fs w)"

text \<open>One field. A key the body leaves out takes the default, which is not validated, or
  is an error when the field has none. A value that is present is checked against the
  annotation and then handed to the field's validators, \<^verbatim>\<open>null\<close> like any other value.\<close>

definition validate_field ::
  "env \<Rightarrow> pydantic_model \<Rightarrow> string \<times> ty \<times> val option \<Rightarrow> obj \<Rightarrow> field_result" where
  "validate_field e M fld body =
     (case fld of (n, t, dflt) \<Rightarrow>
        (case body n of
           None \<Rightarrow> (case dflt of None \<Rightarrow> Invalid | Some d \<Rightarrow> Default d)
         | Some v \<Rightarrow>
             if \<not> type_ok e t v then Invalid
             else (case run_validators (validators_of M n) v of
                     Inl (ValueError _) \<Rightarrow> Invalid
                   | Inl x \<Rightarrow> Raised x
                   | Inr w \<Rightarrow> Given w)))"

text \<open>The fields are validated in order; validation errors are collected (the flag), an
  exception that is not a validation error ends the validation at once.\<close>

fun validate_fields ::
  "env \<Rightarrow> pydantic_model \<Rightarrow> (string \<times> ty \<times> val option) list \<Rightarrow> obj \<Rightarrow> exn + (bool \<times> BaseModel)" where
  "validate_fields e M [] body = Inr (True, \<lparr>field_values = Map.empty, model_fields_set = {}\<rparr>)"
| "validate_fields e M (fld # flds) body =
     (case validate_field e M fld body of
        Raised x \<Rightarrow> Inl x
      | r \<Rightarrow>
          (case validate_fields e M flds body of
             Inl x \<Rightarrow> Inl x
           | Inr (ok, m) \<Rightarrow>
               (case r of
                  Default d \<Rightarrow> Inr (ok, m\<lparr>field_values := (field_values m)(fst fld \<mapsto> d)\<rparr>)
                | Given w \<Rightarrow>
                    Inr (ok, m\<lparr>field_values := (field_values m)(fst fld \<mapsto> w),
                               model_fields_set := insert (fst fld) (model_fields_set m)\<rparr>)
                | _ \<Rightarrow> Inr (False, m))))"

definition model_validate :: "env \<Rightarrow> pydantic_model \<Rightarrow> obj \<Rightarrow> error + BaseModel" where
  "model_validate e M body =
     (case validate_fields e M (model_fields M) body of
        Inl x \<Rightarrow> Inl (UNHANDLED x)
      | Inr (ok, m) \<Rightarrow> if ok then Inr m else Inl VALIDATION_ERROR)"

text \<open>\<^verbatim>\<open>response_model=M\<close> on a route: the returned object is validated against \<open>M\<close> and
  the response holds the fields of \<open>M\<close> and nothing else.\<close>

definition response_model :: "env \<Rightarrow> pydantic_model \<Rightarrow> obj \<Rightarrow> error + obj" where
  "response_model e M returned =
     (case model_validate e M returned of
        Inl _ \<Rightarrow> Inl (UNHANDLED ResponseValidationError)
      | Inr m \<Rightarrow> Inr (field_values m))"

section \<open>The data manager interface (\<^verbatim>\<open>data_manager_interface.py\<close>)\<close>

text \<open>
  A method of the data manager reads and writes the database session it is given: it maps
  the session to a result, or an error, and the session afterwards. The arguments are
  those \<^verbatim>\<open>main.py\<close> passes. \<^verbatim>\<open>get_contract_events\<close> is called by \<^verbatim>\<open>main.py\<close> and not
  declared by the interface; \<^verbatim>\<open>delete_user\<close> and \<^verbatim>\<open>get_user_profiles\<close> are declared and
  have no route.
\<close>

record user =
  user_id :: int
  user_username :: string

type_synonym ('db, 'a) action = "'db \<Rightarrow> (error + 'a) \<times> 'db"

record 'db DataManagerInterface =
  dm_create_user :: "BaseModel \<Rightarrow> ('db, int) action"
  dm_get_user_by_id :: "int \<Rightarrow> ('db, obj) action"
  dm_soft_delete_user :: "val \<Rightarrow> int \<Rightarrow> ('db, obj) action"
  dm_update_user :: "BaseModel \<Rightarrow> int \<Rightarrow> ('db, obj) action"
  dm_delete_user :: "int \<Rightarrow> ('db, bool) action"
  dm_get_user_profiles :: "int \<Rightarrow> ('db, int list) action"
  dm_create_profile :: "BaseModel \<Rightarrow> int \<Rightarrow> ('db, int) action"
  dm_get_profile_by_id :: "int \<Rightarrow> ('db, obj) action"
  dm_update_profile :: "int \<Rightarrow> BaseModel \<Rightarrow> int \<Rightarrow> ('db, obj) action"
  dm_delete_profile :: "int \<Rightarrow> int \<Rightarrow> ('db, bool) action"
  dm_create_contract :: "BaseModel \<Rightarrow> user \<Rightarrow> ('db, int) action"
  dm_get_contract_by_id :: "int \<Rightarrow> int \<Rightarrow> ('db, obj) action"
  dm_get_contract_events :: "int \<Rightarrow> int \<Rightarrow> ('db, int list) action"
  dm_update_contract :: "int \<Rightarrow> BaseModel \<Rightarrow> int \<Rightarrow> ('db, obj) action"
  dm_disable_contract :: "int \<Rightarrow> val \<Rightarrow> int \<Rightarrow> ('db, obj) action"
  dm_create_event :: "BaseModel \<Rightarrow> user \<Rightarrow> ('db, int) action"
  dm_get_event_by_id :: "int \<Rightarrow> int \<Rightarrow> ('db, obj) action"
  dm_update_event :: "int \<Rightarrow> BaseModel \<Rightarrow> int \<Rightarrow> ('db, obj) action"
  dm_delete_event :: "int \<Rightarrow> int \<Rightarrow> ('db, bool) action"
  dm_create_accommodation :: "BaseModel \<Rightarrow> ('db, int) action"
  dm_get_accommodation_by_id :: "int \<Rightarrow> ('db, obj) action"
  dm_update_accommodation :: "int \<Rightarrow> BaseModel \<Rightarrow> ('db, obj) action"
  dm_delete_accommodation :: "int \<Rightarrow> ('db, bool) action"

section \<open>The routes of \<^verbatim>\<open>main.py\<close>\<close>

text \<open>
  A route with a body parameter runs only when the body validates against the parameter's
  model; otherwise the request ends with the validation's error and the data manager is
  not called. \<^verbatim>\<open>common_dependencies\<close> is the triple \<^verbatim>\<open>(current_user, db, data_manager)\<close> of
  an authenticated request.
\<close>

definition with_body ::
  "env \<Rightarrow> pydantic_model \<Rightarrow> obj \<Rightarrow> 'db \<Rightarrow> (BaseModel \<Rightarrow> (error + 'a) \<times> 'db) \<Rightarrow> (error + 'a) \<times> 'db" where
  "with_body e M body db handler =
     (case model_validate e M body of Inl err \<Rightarrow> (Inl err, db) | Inr m \<Rightarrow> handler m)"

definition returning :: "('a \<Rightarrow> 'b) \<Rightarrow> (error + 'a) \<times> 'db \<Rightarrow> (error + 'b) \<times> 'db" where
  "returning f r = (case r of (Inl err, db) \<Rightarrow> (Inl err, db) | (Inr x, db) \<Rightarrow> (Inr (f x), db))"

definition sign_up :: "env \<Rightarrow> obj \<Rightarrow> 'db \<Rightarrow> 'db DataManagerInterface \<Rightarrow> (error + obj) \<times> 'db" where
  "sign_up e user_data db data_manager =
     with_body e UserCreatePydantic user_data db (\<lambda>m.
       returning (\<lambda>i. [''user_id'' \<mapsto> VInt i]) (dm_create_user data_manager m db))"

definition get_user_me ::
  "env \<Rightarrow> user \<times> 'db \<times> 'db DataManagerInterface \<Rightarrow> (error + obj) \<times> 'db" where
  "get_user_me e common_dependencies =
     (case common_dependencies of (current_user, db, data_manager) \<Rightarrow>
        (case dm_get_user_by_id data_manager (user_id current_user) db of
           (Inl err, db') \<Rightarrow> (Inl err, db')
         | (Inr u, db') \<Rightarrow> (response_model e UserNoPwdPydantic u, db')))"

definition update_user ::
  "env \<Rightarrow> obj \<Rightarrow> user \<times> 'db \<times> 'db DataManagerInterface \<Rightarrow> (error + obj) \<times> 'db" where
  "update_user e user_data_to_update common_dependencies =
     (case common_dependencies of (current_user, db, data_manager) \<Rightarrow>
        with_body e UserUpdatePydantic user_data_to_update db (\<lambda>m.
          dm_update_user data_manager m (user_id current_user) db))"

definition soft_delete_user ::
  "user \<times> 'db \<times> 'db DataManagerInterface \<Rightarrow> val \<Rightarrow> (error + obj) \<times> 'db" where
  "soft_delete_user common_dependencies deactivation_date =
     (case common_dependencies of (current_user, db, data_manager) \<Rightarrow>
        dm_soft_delete_user data_manager deactivation_date (user_id current_user) db)"

definition create_profile ::
  "env \<Rightarrow> obj \<Rightarrow> user \<times> 'db \<times> 'db DataManagerInterface \<Rightarrow> (error + obj) \<times> 'db" where
  "create_profile e profile_data common_dependencies =
     (case common_dependencies of (current_user, db, data_manager) \<Rightarrow>
        with_body e ProfilePydantic profile_data db (\<lambda>m.
          returning (\<lambda>i. [''profile_id'' \<mapsto> VInt i])
            (dm_create_profile data_manager m (user_id current_user) db)))"

definition get_profile :: "int \<Rightarrow> 'db \<Rightarrow> 'db DataManagerInterface \<Rightarrow> (error + obj) \<times> 'db" where
  "get_profile profile_id db data_manager = dm_get_profile_by_id data_manager profile_id db"

text \<open>The body parameter of \<^verbatim>\<open>update_profile\<close> is annotated \<^verbatim>\<open>ProfilePydantic\<close>, the model
  of \<^verbatim>\<open>create_profile\<close>; no route uses \<^verbatim>\<open>ProfileUpdatePydantic\<close>.\<close>

definition update_profile ::
  "env \<Rightarrow> int \<Rightarrow> obj \<Rightarrow> user \<times> 'db \<times> 'db DataManagerInterface \<Rightarrow> (error + obj) \<times> 'db" where
  "update_profile e profile_id profile_data common_dependencies =
     (case common_dependencies of (current_user, db, data_manager) \<Rightarrow>
        with_body e ProfilePydantic profile_data db (\<lambda>m.
          dm_update_profile data_manager profile_id m (user_id current_user) db))"

definition delete_profile ::
  "int \<Rightarrow> user \<times> 'db \<times> 'db DataManagerInterface \<Rightarrow> (error + obj) \<times> 'db" where
  "delete_profile profile_id common_dependencies =
     (case common_dependencies of (current_user, db, data_manager) \<Rightarrow>
        returning (\<lambda>_. [''message'' \<mapsto> VStr (str ''Profile deleted successfully'')])
          (dm_delete_profile data_manager profile_id (user_id current_user) db))"

definition create_contract ::
  "env \<Rightarrow> obj \<Rightarrow> user \<times> 'db \<times> 'db DataManagerInterface \<Rightarrow> (error + obj) \<times> 'db" where
  "create_contract e contract_data common_dependencies =
     (case common_dependencies of (current_user, db, data_manager) \<Rightarrow>
        with_body e (ContractPydantic e) contract_data db (\<lambda>m.
          returning (\<lambda>i. [''contract_id'' \<mapsto> VInt i])
            (dm_create_contract data_manager m current_user db)))"

definition get_contract ::
  "int \<Rightarrow> user \<times> 'db \<times> 'db DataManagerInterface \<Rightarrow> (error + obj \<times> int list) \<times> 'db" where
  "get_contract contract_id common_dependencies =
     (case common_dependencies of (current_user, db, data_manager) \<Rightarrow>
        (case dm_get_contract_by_id data_manager contract_id (user_id current_user) db of
           (Inl err, db') \<Rightarrow> (Inl err, db')
         | (Inr contract_dict, db') \<Rightarrow>
             returning (\<lambda>events_in_contract. (contract_dict, events_in_contract))
               (dm_get_contract_events data_manager contract_id (user_id current_user) db')))"

definition update_contract ::
  "env \<Rightarrow> int \<Rightarrow> obj \<Rightarrow> user \<times> 'db \<times> 'db DataManagerInterface \<Rightarrow> (error + obj) \<times> 'db" where
  "update_contract e contract_id contract_data common_dependencies =
     (case common_dependencies of (current_user, db, data_manager) \<Rightarrow>
        with_body e (ContractUpdatePydantic e) contract_data db (\<lambda>m.
          dm_update_contract data_manager contract_id m (user_id current_user) db))"

definition disable_contract ::
  "int \<Rightarrow> user \<times> 'db \<times> 'db DataManagerInterface \<Rightarrow> val \<Rightarrow> (error + obj) \<times> 'db" where
  "disable_contract contract_id common_dependencies disable_at =
     (case common_dependencies of (current_user, db, data_manager) \<Rightarrow>
        dm_disable_contract data_manager contract_id disable_at (user_id current_user) db)"

definition create_event ::
  "env \<Rightarrow> obj \<Rightarrow> user \<times> 'db \<times> 'db DataManagerInterface \<Rightarrow> (error + obj) \<times> 'db" where
  "create_event e event_data common_dependencies =
     (case common_dependencies of (current_user, db, data_manager) \<Rightarrow>
        with_body e (EventPydantic e) event_data db (\<lambda>m.
          returning (\<lambda>i. [''event_id'' \<mapsto> VInt i])
            (dm_create_event data_manager m current_user db)))"

definition get_event ::
  "int \<Rightarrow> user \<times> 'db \<times> 'db DataManagerInterface \<Rightarrow> (error + obj) \<times> 'db" where
  "get_event event_id common_dependencies =
     (case common_dependencies of (current_user, db, data_manager) \<Rightarrow>
        dm_get_event_by_id data_manager event_id (user_id current_user) db)"

definition update_event ::
  "env \<Rightarrow> int \<Rightarrow> obj \<Rightarrow> user \<times> 'db \<times> 'db DataManagerInterface \<Rightarrow> (error + obj) \<times> 'db" where
  "update_event e event_id event_data_to_update common_dependencies =
     (case common_dependencies of (current_user, db, data_manager) \<Rightarrow>
        with_body e (EventUpdatePydantic e) event_data_to_update db (\<lambda>m.
          dm_update_event data_manager event_id m (user_id current_user) db))"

definition delete_event ::
  "int \<Rightarrow> user \<times> 'db \<times> 'db DataManagerInterface \<Rightarrow> (error + obj) \<times> 'db" where
  "delete_event event_id common_dependencies =
     (case common_dependencies of (current_user, db, data_manager) \<Rightarrow>
        returning (\<lambda>_. [''message'' \<mapsto> VStr (str ''Event deleted successfully'')])
          (dm_delete_event data_manager event_id (user_id current_user) db))"

definition create_accommodation ::
  "env \<Rightarrow> obj \<Rightarrow> 'db \<Rightarrow> 'db DataManagerInterface \<Rightarrow> (error + obj) \<times> 'db" where
  "create_accommodation e accommodation_data db data_manager =
     with_body e AccommodationPydantic accommodation_data db (\<lambda>m.
       returning (\<lambda>i. [''accommodation_id'' \<mapsto> VInt i])
         (dm_create_accommodation data_manager m db))"

definition get_accommodation ::
  "int \<Rightarrow> user \<times> 'db \<times> 'db DataManagerInterface \<Rightarrow> (error + obj) \<times> 'db" where
  "get_accommodation accommodation_id common_dependencies =
     (case common_dependencies of (current_user, db, data_manager) \<Rightarrow>
        dm_get_accommodation_by_id data_manager accommodation_id db)"

definition update_accommodation ::
  "env \<Rightarrow> int \<Rightarrow> obj \<Rightarrow> user \<times> 'db \<times> 'db DataManagerInterface \<Rightarrow> (error + obj) \<times> 'db" where
  "update_accommodation e accommodation_id accommodation_data common_dependencies =
     (case common_dependencies of (current_user, db, data_manager) \<Rightarrow>
        with_body e (env_AccommodationUpdatePydantic e) accommodation_data db (\<lambda>m.
          dm_update_accommodation data_manager accommodation_id m db))"

definition delete_accommodation ::
  "int \<Rightarrow> user \<times> 'db \<times> 'db DataManagerInterface \<Rightarrow> (error + obj) \<times> 'db" where
  "delete_accommodation accommodation_id common_dependencies =
     (case common_dependencies of (current_user, db, data_manager) \<Rightarrow>
        returning (\<lambda>_. [''message'' \<mapsto> VStr (str ''Accommodation deleted successfully'')])
          (dm_delete_accommodation data_manager accommodation_id db))"

section \<open>The lifecycle manager behind the interface\<close>

text \<open>
  The implementation of the data manager (\<^verbatim>\<open>data_manager_SQLAlchemy.py\<close>) is not among the
  files under \<^verbatim>\<open>src/\<close>. The definitions of this section are modelled from the
  specification, sections 3, 4.1 and 4.2.
\<close>

datatype kind = User | Profile | Contract | Event | Accommodation

datatype operation = OpCreate | OpRead | OpUpdate | OpDelete

text \<open>Modelled from the spec: the stored instance of the Entity Store (missing: the ORM
  classes). An instance has the user that owns it, when it has one, and its attributes.\<close>

record entity =
  owner :: "int option"
  attrs :: obj

text \<open>Modelled from the spec: the Entity Store (missing: the database session), one table
  per entity kind and the next identifier each table assigns.\<close>

record store =
  table :: "kind \<Rightarrow> int \<rightharpoonup> entity"
  next_id :: "kind \<Rightarrow> int"

definition empty_store :: store where
  "empty_store = \<lparr>table = (\<lambda>_. Map.empty), next_id = (\<lambda>_. 1)\<rparr>"

definition put :: "kind \<Rightarrow> int \<Rightarrow> entity \<Rightarrow> store \<Rightarrow> store" where
  "put k i ent s = s\<lparr>table := (table s)(k := (table s k)(i \<mapsto> ent))\<rparr>"

text \<open>Modelled from the spec: the Ownership and Authorization Engine of section 4.1
  (missing: the ownership checks of the data manager). A user acts on its own record
  only; a profile is read by anyone and changed by its owner; a contract is open to the
  user that created it; an event to the user tied to its parent contract; an
  accommodation to everyone.\<close>

definition authorize :: "store \<Rightarrow> int option \<Rightarrow> kind \<Rightarrow> operation \<Rightarrow> entity \<Rightarrow> bool" where
  "authorize s actor k operation ent =
     (case k of
        User \<Rightarrow> actor \<noteq> None \<and> owner ent = actor
      | Profile \<Rightarrow> operation = OpRead \<or> (actor \<noteq> None \<and> owner ent = actor)
      | Contract \<Rightarrow> actor \<noteq> None \<and> owner ent = actor
      | Event \<Rightarrow>
          (case attrs ent ''contract_id'' of
             Some (VInt c) \<Rightarrow>
               (case table s Contract c of
                  Some parent \<Rightarrow> actor \<noteq> None \<and> owner parent = actor
                | None \<Rightarrow> False)
           | _ \<Rightarrow> False)
      | Accommodation \<Rightarrow> True)"

text \<open>Modelled from the spec: create of section 4.2 (missing: the \<^verbatim>\<open>create_*\<close> methods):
  assign a new identifier, stamp the ownership, persist, return the identifier. A user
  owns itself; a contract enters the state active; an event is created by an actor tied
  to its parent contract.\<close>

definition lifecycle_create :: "kind \<Rightarrow> BaseModel \<Rightarrow> int option \<Rightarrow> (store, int) action" where
  "lifecycle_create k m actor s =
     (let i = next_id s k;
          stamped = (field_values m)(''id'' \<mapsto> VInt i);
          ent = \<lparr>owner = (if k = User then Some i else actor),
                 attrs = (if k = Contract
                          then stamped(''disabled'' \<mapsto> VBool False, ''disabled_at'' \<mapsto> VNone)
                          else stamped)\<rparr>
      in if k = Event \<and> \<not> authorize s actor Event OpCreate ent then (Inl FORBIDDEN, s)
         else (Inr i, (put k i ent s)\<lparr>next_id := (next_id s)(k := i + 1)\<rparr>))"

text \<open>Modelled from the spec: read of section 4.2 (missing: the \<^verbatim>\<open>get_*_by_id\<close> methods):
  fetch the instance, \<open>NOT_FOUND\<close> when absent, \<open>FORBIDDEN\<close> when the engine denies,
  else the instance's representation.\<close>

definition lifecycle_read :: "kind \<Rightarrow> int \<Rightarrow> int option \<Rightarrow> (store, obj) action" where
  "lifecycle_read k i actor s =
     (case table s k i of
        None \<Rightarrow> (Inl NOT_FOUND, s)
      | Some ent \<Rightarrow>
          if \<not> authorize s actor k OpRead ent then (Inl FORBIDDEN, s)
          else (Inr (attrs ent), s))"

text \<open>Modelled from the spec: the partial merge of section 4.2 (missing: the body of the
  \<^verbatim>\<open>update_*\<close> methods): only the fields present in the update payload are merged into
  the stored instance, absent fields are left untouched, an explicit null clears a
  field.\<close>

definition merge_payload :: "BaseModel \<Rightarrow> entity \<Rightarrow> entity" where
  "merge_payload m ent = ent\<lparr>attrs := attrs ent ++ (field_values m |` model_fields_set m)\<rparr>"

definition is_disabled :: "entity \<Rightarrow> bool" where
  "is_disabled ent = (attrs ent ''disabled'' = Some (VBool True))"

text \<open>Modelled from the spec: update of section 4.2 and the contract state machine
  (missing: the \<^verbatim>\<open>update_*\<close> methods): fetch, \<open>NOT_FOUND\<close> when absent, \<open>FORBIDDEN\<close>
  when the engine denies; an update of a disabled contract fails (disabled is terminal);
  else merge, persist and return the updated instance.\<close>

definition lifecycle_update :: "kind \<Rightarrow> int \<Rightarrow> BaseModel \<Rightarrow> int option \<Rightarrow> (store, obj) action" where
  "lifecycle_update k i m actor s =
     (case table s k i of
        None \<Rightarrow> (Inl NOT_FOUND, s)
      | Some ent \<Rightarrow>
          if \<not> authorize s actor k OpUpdate ent then (Inl FORBIDDEN, s)
          else if k = Contract \<and> is_disabled ent then (Inl TERMINAL_STATE, s)
          else (Inr (attrs (merge_payload m ent)), put k i (merge_payload m ent) s))"

text \<open>Modelled from the spec: hard delete of section 4.2 (missing: the \<^verbatim>\<open>delete_*\<close>
  methods): the row is removed and the success flag returned.\<close>

definition lifecycle_delete :: "kind \<Rightarrow> int \<Rightarrow> int option \<Rightarrow> (store, bool) action" where
  "lifecycle_delete k i actor s =
     (case table s k i of
        None \<Rightarrow> (Inl NOT_FOUND, s)
      | Some ent \<Rightarrow>
          if \<not> authorize s actor k OpDelete ent then (Inl FORBIDDEN, s)
          else (Inr True, s\<lparr>table := (table s)(k := (table s k)(i := None))\<rparr>))"

definition confirmation :: "entity \<Rightarrow> string \<Rightarrow> val \<Rightarrow> obj" where
  "confirmation ent stamp at =
     (\<lambda>f. if f = ''id'' then attrs ent ''id''
          else if f = ''name'' then attrs ent ''name''
          else if f = stamp then Some at
          else None)"

text \<open>Modelled from the spec: soft delete of a user (missing: \<^verbatim>\<open>soft_delete_user\<close>): sets
  \<^verbatim>\<open>deactivation_date\<close>, now when none is supplied, keeps the row, and returns the
  confirmation with id, name and the effective timestamp.\<close>

definition lifecycle_soft_delete_user :: "env \<Rightarrow> val \<Rightarrow> int \<Rightarrow> (store, obj) action" where
  "lifecycle_soft_delete_user e deactivation_date i s =
     (case table s User i of
        None \<Rightarrow> (Inl NOT_FOUND, s)
      | Some ent \<Rightarrow>
          if \<not> authorize s (Some i) User OpDelete ent then (Inl FORBIDDEN, s)
          else
            (let at = (if deactivation_date = VNone then env_now e else deactivation_date)
             in (Inr (confirmation ent ''deactivation_date'' at),
                 put User i (ent\<lparr>attrs := (attrs ent)(''deactivation_date'' \<mapsto> at)\<rparr>) s)))"

text \<open>Modelled from the spec: disabling a contract (missing: \<^verbatim>\<open>disable_contract\<close>): sets
  \<^verbatim>\<open>disabled\<close> to true and \<^verbatim>\<open>disabled_at\<close> to the timestamp provided, or now, and returns
  the confirmation.\<close>

definition lifecycle_disable_contract :: "env \<Rightarrow> int \<Rightarrow> val \<Rightarrow> int \<Rightarrow> (store, obj) action" where
  "lifecycle_disable_contract e i disabled_at actor s =
     (case table s Contract i of
        None \<Rightarrow> (Inl NOT_FOUND, s)
      | Some ent \<Rightarrow>
          if \<not> authorize s (Some actor) Contract OpUpdate ent then (Inl FORBIDDEN, s)
          else
            (let at = (if disabled_at = VNone then env_now e else disabled_at)
             in (Inr (confirmation ent ''disabled_at'' at),
                 put Contract i
                   (ent\<lparr>attrs := (attrs ent)(''disabled'' \<mapsto> VBool True, ''disabled_at'' \<mapsto> at)\<rparr>) s)))"

text \<open>Modelled from the spec: the listings (missing: \<^verbatim>\<open>get_contract_events\<close> and
  \<^verbatim>\<open>get_user_profiles\<close>): the identifiers of the events under a contract, under the
  contract's authorization check, and of the profiles a user owns.\<close>

definition ids_where :: "store \<Rightarrow> kind \<Rightarrow> (entity \<Rightarrow> bool) \<Rightarrow> int list" where
  "ids_where s k p =
     filter (\<lambda>i. case table s k i of Some ent \<Rightarrow> p ent | None \<Rightarrow> False) [1 ..  next_id s k - 1]"

definition lifecycle_contract_events :: "int \<Rightarrow> int \<Rightarrow> (store, int list) action" where
  "lifecycle_contract_events i actor s =
     (case table s Contract i of
        None \<Rightarrow> (Inl NOT_FOUND, s)
      | Some ent \<Rightarrow>
          if \<not> authorize s (Some actor) Contract OpRead ent then (Inl FORBIDDEN, s)
          else (Inr (ids_where s Event (\<lambda>ev. attrs ev ''contract_id'' = Some (VInt i))), s))"

definition lifecycle_user_profiles :: "int \<Rightarrow> (store, int list) action" where
  "lifecycle_user_profiles i s = (Inr (ids_where s Profile (\<lambda>p. owner p = Some i)), s)"

text \<open>Modelled from the spec: the data manager as the lifecycle manager over the store
  (missing: the class \<^verbatim>\<open>SQLAlchemyDataManager\<close>). The hard delete of a user takes no actor:
  it is the administrative path.\<close>

definition SpecDataManager :: "env \<Rightarrow> store DataManagerInterface" where
  "SpecDataManager e = \<lparr>
     dm_create_user = (\<lambda>m. lifecycle_create User m None),
     dm_get_user_by_id = (\<lambda>i. lifecycle_read User i (Some i)),
     dm_soft_delete_user = lifecycle_soft_delete_user e,
     dm_update_user = (\<lambda>m i. lifecycle_update User i m (Some i)),
     dm_delete_user = (\<lambda>i s.
       (case table s User i of
          None \<Rightarrow> (Inl NOT_FOUND, s)
        | Some _ \<Rightarrow> (Inr True, s\<lparr>table := (table s)(User := (table s User)(i := None))\<rparr>))),
     dm_get_user_profiles = lifecycle_user_profiles,
     dm_create_profile = (\<lambda>m actor. lifecycle_create Profile m (Some actor)),
     dm_get_profile_by_id = (\<lambda>i. lifecycle_read Profile i None),
     dm_update_profile = (\<lambda>i m actor. lifecycle_update Profile i m (Some actor)),
     dm_delete_profile = (\<lambda>i actor. lifecycle_delete Profile i (Some actor)),
     dm_create_contract = (\<lambda>m u. lifecycle_create Contract m (Some (user_id u))),
     dm_get_contract_by_id = (\<lambda>i actor. lifecycle_read Contract i (Some actor)),
     dm_get_contract_events = lifecycle_contract_events,
     dm_update_contract = (\<lambda>i m actor. lifecycle_update Contract i m (Some actor)),
     dm_disable_contract = lifecycle_disable_contract e,
     dm_create_event = (\<lambda>m u. lifecycle_create Event m (Some (user_id u))),
     dm_get_event_by_id = (\<lambda>i actor. lifecycle_read Event i (Some actor)),
     dm_update_event = (\<lambda>i m actor. lifecycle_update Event i m (Some actor)),
     dm_delete_event = (\<lambda>i actor. lifecycle_delete Event i (Some actor)),
     dm_create_accommodation = (\<lambda>m. lifecycle_create Accommodation m None),
     dm_get_accommodation_by_id = (\<lambda>i. lifecycle_read Accommodation i None),
     dm_update_accommodation = (\<lambda>i m. lifecycle_update Accommodation i m None),
     dm_delete_accommodation = (\<lambda>i. lifecycle_delete Accommodation i None)\<rparr>"

section \<open>The public API as a state machine\<close>

text \<open>A request names a route of \<^verbatim>\<open>main.py\<close> with its path, query and body parameters;
  \<open>serve\<close> is the store after the route has answered the request of an authenticated
  user, and \<open>run\<close> a sequence of requests. These are the twenty routes that call the data
  manager; \<^verbatim>\<open>root\<close> and \<^verbatim>\<open>show_itinerary\<close> return a constant and
  \<^verbatim>\<open>login_for_access_token\<close> issues a token, and none of the three calls it.\<close>

datatype request =
    Sign_up obj
  | Get_user_me
  | Update_user obj
  | Soft_delete_user val
  | Create_profile obj
  | Get_profile int
  | Update_profile int obj
  | Delete_profile int
  | Create_contract obj
  | Get_contract int
  | Update_contract int obj
  | Disable_contract int val
  | Create_event obj
  | Get_event int
  | Update_event int obj
  | Delete_event int
  | Create_accommodation obj
  | Get_accommodation int
  | Update_accommodation int obj
  | Delete_accommodation int

fun serve :: "env \<Rightarrow> store DataManagerInterface \<Rightarrow> user \<times> request \<Rightarrow> store \<Rightarrow> store" where
  "serve e dm (u, Sign_up body) s = snd (sign_up e body s dm)"
| "serve e dm (u, Get_user_me) s = snd (get_user_me e (u, s, dm))"
| "serve e dm (u, Update_user body) s = snd (update_user e body (u, s, dm))"
| "serve e dm (u, Soft_delete_user at) s = snd (soft_delete_user (u, s, dm) at)"
| "serve e dm (u, Create_profile body) s = snd (create_profile e body (u, s, dm))"
| "serve e dm (u, Get_profile i) s = snd (get_profile i s dm)"
| "serve e dm (u, Update_profile i body) s = snd (update_profile e i body (u, s, dm))"
| "serve e dm (u, Delete_profile i) s = snd (delete_profile i (u, s, dm))"
| "serve e dm (u, Create_contract body) s = snd (create_contract e body (u, s, dm))"
| "serve e dm (u, Get_contract i) s = snd (get_contract i (u, s, dm))"
| "serve e dm (u, Update_contract i body) s = snd (update_contract e i body (u, s, dm))"
| "serve e dm (u, Disable_contract i at) s = snd (disable_contract i (u, s, dm) at)"
| "serve e dm (u, Create_event body) s = snd (create_event e body (u, s, dm))"
| "serve e dm (u, Get_event i) s = snd (get_event i (u, s, dm))"
| "serve e dm (u, Update_event i body) s = snd (update_event e i body (u, s, dm))"
| "serve e dm (u, Delete_event i) s = snd (delete_event i (u, s, dm))"
| "serve e dm (u, Create_accommodation body) s = snd (create_accommodation e body s dm)"
| "serve e dm (u, Get_accommodation i) s = snd (get_accommodation i (u, s, dm))"
| "serve e dm (u, Update_accommodation i body) s = snd (update_accommodation e i body (u, s, dm))"
| "serve e dm (u, Delete_accommodation i) s = snd (delete_accommodation i (u, s, dm))"

fun run :: "env \<Rightarrow> store DataManagerInterface \<Rightarrow> (user \<times> request) list \<Rightarrow> store \<Rightarrow> store" where
  "run e dm [] s = s"
| "run e dm (r # rs) s = run e dm rs (serve e dm r s)"

text \<open>The stored ids lie below the next identifier: the well-formedness every store
  reached from the empty one has.\<close>

definition wf_store :: "store \<Rightarrow> bool" where
  "wf_store s = (\<forall>k i. i \<in> dom (table s k) \<longrightarrow> i < next_id s k)"

section \<open>The telephone format in words\<close>

text \<open>The shape of a telephone number: an optional leading \<^verbatim>\<open>+\<close>, a first decimal
  digit, then one or more characters of the class \<open>cls\<close>. \<open>stated_phone_format\<close> takes the
  class as the documentation words it: a digit, a space (the code point 32) or a dash.\<close>

definition phone_format :: "(nat \<Rightarrow> bool) \<Rightarrow> pystr \<Rightarrow> bool" where
  "phone_format cls s =
     (case (case s of [] \<Rightarrow> [] | c # cs \<Rightarrow> if c = 43 then cs else s) of
        [] \<Rightarrow> False
      | d # rest \<Rightarrow> re_digit d \<and> rest \<noteq> [] \<and> list_all cls rest)"


section \<open>Example data\<close>

text \<open>The alphabetic codes of ISO 4217 as of January 2026 (list one, with the funds, the
  precious metals and the codes \<^verbatim>\<open>XTS\<close> and \<^verbatim>\<open>XXX\<close>), the table from which the \<^verbatim>\<open>iso4217\<close>
  package builds \<^verbatim>\<open>Currency\<close>.\<close>

definition iso4217_list_one :: "string list" where
  "iso4217_list_one = [
     ''AED'', ''AFN'', ''ALL'', ''AMD'', ''AOA'', ''ARS'', ''AUD'', ''AWG'', ''AZN'',
     ''BAM'', ''BBD'', ''BDT'', ''BHD'', ''BIF'', ''BMD'', ''BND'', ''BOB'', ''BOV'',
     ''BRL'', ''BSD'', ''BTN'', ''BWP'', ''BYN'', ''BZD'', ''CAD'', ''CDF'', ''CHE'', ''CHF'',
     ''CHW'', ''CLF'', ''CLP'', ''CNY'', ''COP'', ''COU'', ''CRC'', ''CUP'', ''CVE'', ''CZK'',
     ''DJF'', ''DKK'', ''DOP'', ''DZD'', ''EGP'', ''ERN'', ''ETB'', ''EUR'', ''FJD'', ''FKP'',
     ''GBP'', ''GEL'', ''GHS'', ''GIP'', ''GMD'', ''GNF'', ''GTQ'', ''GYD'', ''HKD'', ''HNL'',
     ''HTG'', ''HUF'', ''IDR'', ''ILS'', ''INR'', ''IQD'', ''IRR'', ''ISK'', ''JMD'', ''JOD'',
     ''JPY'', ''KES'', ''KGS'', ''KHR'', ''KMF'', ''KPW'', ''KRW'', ''KWD'', ''KYD'', ''KZT'',
     ''LAK'', ''LBP'', ''LKR'', ''LRD'', ''LSL'', ''LYD'', ''MAD'', ''MDL'', ''MGA'', ''MKD'',
     ''MMK'', ''MNT'', ''MOP'', ''MRU'', ''MUR'', ''MVR'', ''MWK'', ''MXN'', ''MXV'', ''MYR'',
     ''MZN'', ''NAD'', ''NGN'', ''NIO'', ''NOK'', ''NPR'', ''NZD'', ''OMR'', ''PAB'', ''PEN'',
     ''PGK'', ''PHP'', ''PKR'', ''PLN'', ''PYG'', ''QAR'', ''RON'', ''RSD'', ''RUB'', ''RWF'',
     ''SAR'', ''SBD'', ''SCR'', ''SDG'', ''SEK'', ''SGD'', ''SHP'', ''SLE'', ''SOS'', ''SRD'',
     ''SSP'', ''STN'', ''SVC'', ''SYP'', ''SZL'', ''THB'', ''TJS'', ''TMT'', ''TND'', ''TOP'',
     ''TRY'', ''TTD'', ''TWD'', ''TZS'', ''UAH'', ''UGX'', ''USD'', ''USN'', ''UYI'', ''UYU'',
     ''UYW'', ''UZS'', ''VED'', ''VES'', ''VND'', ''VUV'', ''WST'', ''XAF'', ''XAG'', ''XAU'',
     ''XAD'', ''XBA'', ''XBB'', ''XBC'', ''XBD'', ''XCD'', ''XCG'', ''XDR'', ''XOF'', ''XPD'',
     ''XPF'', ''XPT'', ''XSU'', ''XTS'', ''XUA'', ''XXX'', ''YER'', ''ZAR'', ''ZMW'', ''ZWG'']"

text \<open>An environment for the examples: the ISO table, a day and an instant, stand-ins for
  the syntax checks of \<^verbatim>\<open>EmailStr\<close> (an at sign, code point 64, occurs) and \<^verbatim>\<open>HttpUrl\<close>,
  and the accommodation model in the place of the update model that is not declared.\<close>

definition example_env :: env where
  "example_env = \<lparr>
     env_Currency = map str iso4217_list_one,
     env_today = \<lparr>year = 2026, month = 11, day = 3\<rparr>,
     env_now = VDateTime \<lparr>year = 2026, month = 11, day = 3\<rparr>
                 \<lparr>hour = 12, minute = 0, second = 0, microsecond = 0\<rparr>,
     env_EmailStr = (\<lambda>s. 64 \<in> set s),
     env_HttpUrl = (\<lambda>s. take 4 s = str ''http''),
     env_AccommodationUpdatePydantic = AccommodationPydantic\<rparr>"

definition alice :: user where
  "alice = \<lparr>user_id = 1, user_username = ''alice''\<rparr>"

definition bob :: user where
  "bob = \<lparr>user_id = 2, user_username = ''bob''\<rparr>"

definition user_body :: "string \<Rightarrow> obj" where
  "user_body n = [
     ''username'' \<mapsto> VStr (str n),
     ''type_of_entity'' \<mapsto> VStr (str ''artist''),
     ''password'' \<mapsto> VStr (str ''$2b$12$hash''),
     ''name'' \<mapsto> VStr (str n),
     ''surname'' \<mapsto> VStr (str ''Doe''),
     ''email_address'' \<mapsto> VStr (str ''someone@example.org''),
     ''phone_number'' \<mapsto> VStr (str ''+49 30-1234'')]"

definition profile_body :: obj where
  "profile_body = [
     ''name'' \<mapsto> VStr (str ''Alice Trio''),
     ''performance_type'' \<mapsto> VStr (str ''jazz''),
     ''description'' \<mapsto> VStr (str ''A trio''),
     ''bio'' \<mapsto> VStr (str ''Founded in 2020''),
     ''social_media'' \<mapsto> VList [],
     ''photos'' \<mapsto> VList [],
     ''videos'' \<mapsto> VList [],
     ''audios'' \<mapsto> VList [],
     ''online_press'' \<mapsto> VList []]"

definition contract_body :: "string \<Rightarrow> obj" where
  "contract_body c = [
     ''name'' \<mapsto> VStr (str ''Summer tour''),
     ''offeree_id'' \<mapsto> VInt 1,
     ''total_fee'' \<mapsto> VDecimal 150000 2,
     ''currency_code'' \<mapsto> VStr (str c),
     ''upon_signing'' \<mapsto> VInt 50,
     ''upon_completion'' \<mapsto> VInt 50,
     ''payment_method'' \<mapsto> VStr (str ''bank transfer'')]"

definition event_body :: "date \<Rightarrow> obj" where
  "event_body d = [
     ''name'' \<mapsto> VStr (str ''Opening night''),
     ''contract_id'' \<mapsto> VInt 1,
     ''profile_offeror_id'' \<mapsto> VInt 1,
     ''profile_offeree_id'' \<mapsto> VInt 1,
     ''date'' \<mapsto> VDate d,
     ''duration'' \<mapsto> VTimedelta 5400000000,
     ''start'' \<mapsto> VTime \<lparr>hour = 20, minute = 0, second = 0, microsecond = 0\<rparr>,
     ''end'' \<mapsto> VTime \<lparr>hour = 21, minute = 30, second = 0, microsecond = 0\<rparr>,
     ''meal_location_name'' \<mapsto> VStr (str ''Canteen''),
     ''meal_location_address'' \<mapsto> VStr (str ''Main street 1'')]"

text \<open>A store with the users Alice (1) and Bob (2), a profile and an active contract of
  Alice.\<close>

definition example_store :: store where
  "example_store = \<lparr>
     table = (\<lambda>_. Map.empty)
       (User := [1 \<mapsto> \<lparr>owner = Some 1, attrs = (user_body ''alice'')(''id'' \<mapsto> VInt 1,
                          ''is_active'' \<mapsto> VBool True)\<rparr>,
                 2 \<mapsto> \<lparr>owner = Some 2, attrs = (user_body ''bob'')(''id'' \<mapsto> VInt 2,
                          ''is_active'' \<mapsto> VBool True)\<rparr>],
        Profile := [1 \<mapsto> \<lparr>owner = Some 1, attrs = profile_body(''id'' \<mapsto> VInt 1)\<rparr>],
        Contract := [1 \<mapsto> \<lparr>owner = Some 1,
                          attrs = (contract_body ''USD'')(''id'' \<mapsto> VInt 1,
                            ''disabled'' \<mapsto> VBool False, ''disabled_at'' \<mapsto> VNone)\<rparr>]),
     next_id = (\<lambda>_. 1)(User := 3, Profile := 2, Contract := 2)\<rparr>"

definition reactivation_body :: obj where
  "reactivation_body = [''is_active'' \<mapsto> VBool True, ''deactivation_date'' \<mapsto> VNone]"

section \<open>Disabled contracts across a step\<close>

text \<open>A step from \<open>s\<close> to \<open>s'\<close> keeps the store well-formed and every disabled contract
  disabled.\<close>

definition preserved :: "store \<Rightarrow> store \<Rightarrow> bool" where
  "preserved s s' =
     (wf_store s' \<and>
      (\<forall>i c. table s Contract i = Some c \<and> is_disabled c \<longrightarrow>
             (\<exists>c'. table s' Contract i = Some c' \<and> is_disabled c')))"

section \<open>Validation lemmas\<close>

lemma validate_fields_invalid_flag:
  assumes "validate_fields e M flds body = Inr (ok, m)"
    and "fld \<in> set flds" and "validate_field e M fld body = Invalid"
  shows "\<not> ok"
  using assms
proof (induction flds arbitrary: ok m)
  case Nil
  then show ?case by simp
next
  case (Cons f fs)
  then show ?case
    by (auto split: field_result.splits sum.splits prod.splits)
qed

lemma validate_fields_no_raise:
  assumes "\<And>fld x. fld \<in> set flds \<Longrightarrow> validate_field e M fld body \<noteq> Raised x"
  shows "\<exists>ok m. validate_fields e M flds body = Inr (ok, m)"
  using assms
proof (induction flds)
  case Nil
  then show ?case by auto
next
  case (Cons f fs)
  then obtain ok m where "validate_fields e M fs body = Inr (ok, m)" by auto
  moreover have "\<And>x. validate_field e M f body \<noteq> Raised x" using Cons.prems by simp
  ultimately show ?case
    by (cases "validate_field e M f body") auto
qed

lemma validate_fields_dom:
  assumes "validate_fields e M flds body = Inr (True, m)"
  shows "dom (field_values m) = fst ` set flds"
  using assms
proof (induction flds arbitrary: m)
  case Nil
  then show ?case by auto
next
  case (Cons f fs)
  from Cons.prems obtain ok m' where rec: "validate_fields e M fs body = Inr (ok, m')"
    by (auto split: field_result.splits sum.splits prod.splits)
  from Cons.prems rec have ok: "ok"
    by (auto split: field_result.splits)
  with rec Cons.IH have dom': "dom (field_values m') = fst ` set fs" by simp
  from Cons.prems rec have "field_values m = (field_values m')(fst f \<mapsto> the (field_values m (fst f)))"
    by (auto split: field_result.splits)
  then have "dom (field_values m) = insert (fst f) (dom (field_values m'))"
    by (metis dom_fun_upd option.distinct(1))
  with dom' show ?case by simp
qed

lemma validate_fields_values:
  assumes "validate_fields e M flds body = Inr (True, m)"
    and "\<And>n v w. run_validators (validators_of M n) v = Inr w \<Longrightarrow> w = v"
    and "n \<in> fst ` set flds" and "body n = Some v"
  shows "field_values m n = Some v"
  using assms(1,3)
proof (induction flds arbitrary: m)
  case Nil
  then show ?case by simp
next
  case (Cons f fs)
  obtain fn t dflt where f: "f = (fn, t, dflt)" by (cases f)
  from Cons.prems(1) obtain ok' m' where rec: "validate_fields e M fs body = Inr (ok', m')"
    by (auto split: field_result.splits sum.splits prod.splits)
  from Cons.prems(1) rec have ok': "ok'" by (auto split: field_result.splits)
  show ?case
  proof (cases "n = fn")
    case True
    with assms(4) f have "validate_field e M f body = Invalid \<or> validate_field e M f body = Given v
        \<or> (\<exists>x. validate_field e M f body = Raised x)"
      using assms(2)
      by (auto simp: validate_field_def split: sum.splits exn.splits)
    with Cons.prems(1) rec True f show ?thesis
      by (auto split: field_result.splits)
  next
    case False
    with Cons.prems(2) f have "n \<in> fst ` set fs" by auto
    with rec ok' Cons.IH have "field_values m' n = Some v" by simp
    with Cons.prems(1) rec False f show ?thesis
      by (auto split: field_result.splits)
  qed
qed

lemma model_validate_Inr:
  "model_validate e M body = Inr m \<Longrightarrow> validate_fields e M (model_fields M) body = Inr (True, m)"
  by (auto simp: model_validate_def split: sum.splits prod.splits if_splits)

lemma model_validate_invalid:
  assumes "\<And>fld x. fld \<in> set (model_fields M) \<Longrightarrow> validate_field e M fld body \<noteq> Raised x"
    and "fld \<in> set (model_fields M)" and "validate_field e M fld body = Invalid"
  shows "model_validate e M body = Inl VALIDATION_ERROR"
proof -
  obtain ok m where r: "validate_fields e M (model_fields M) body = Inr (ok, m)"
    using validate_fields_no_raise[of "model_fields M" e M body] assms(1) by blast
  from r assms(2,3) have "\<not> ok" by (rule validate_fields_invalid_flag)
  with r show ?thesis by (simp add: model_validate_def)
qed

lemma with_body_rejected:
  "model_validate e M body = Inl err \<Longrightarrow> with_body e M body db handler = (Inl err, db)"
  by (simp add: with_body_def)

lemma validate_field_raised:
  assumes "validate_field e M (n, t, dflt) body = Raised x"
  shows "\<exists>v. body n = Some v \<and> type_ok e t v \<and> run_validators (validators_of M n) v = Inl x"
  using assms
  by (auto simp: validate_field_def split: option.splits if_splits sum.splits exn.splits)

lemmas eval_defs = model_validate_def validate_field_def validators_of_def required_def defaulted_def
  with_body_def returning_def lifecycle_create_def lifecycle_read_def lifecycle_update_def
  lifecycle_delete_def authorize_def put_def empty_store_def SpecDataManager_def

lemmas route_defs = sign_up_def get_user_me_def update_user_def soft_delete_user_def
  create_profile_def get_profile_def update_profile_def delete_profile_def
  create_contract_def get_contract_def update_contract_def disable_contract_def
  create_event_def get_event_def update_event_def delete_event_def
  create_accommodation_def get_accommodation_def update_accommodation_def delete_accommodation_def

section \<open>Telephone numbers\<close>

lemma re_seq_nonempty: "re_seq m1 m2 s \<noteq> [] \<longleftrightarrow> (\<exists>r\<in>set (m1 s). m2 r \<noteq> [])"
  by (auto simp: re_seq_def)

lemma phone_class_newline: "phone_class (10::nat)"
  by (simp add: phone_class_def re_space_def in_ranges_def unicode_whitespace_def)

lemma re_plus_class_to_end:
  assumes "p (10::nat)"
  shows "(\<exists>r\<in>set (re_plus_class p s). r = [] \<or> r = [10]) \<longleftrightarrow> s \<noteq> [] \<and> list_all p s"
  using assms
proof (induction s)
  case Nil
  then show ?case by simp
next
  case (Cons c cs)
  show ?case
  proof (cases "p c")
    case False
    then show ?thesis by simp
  next
    case True
    with Cons show ?thesis by (cases cs) auto
  qed
qed

lemma re_eol_nonempty: "re_eol r \<noteq> [] \<longleftrightarrow> r = [] \<or> r = [10]"
  by (simp add: re_eol_def)

lemma tail_matches:
  "re_seq (re_plus_class phone_class) re_eol s \<noteq> [] \<longleftrightarrow> s \<noteq> [] \<and> list_all phone_class s"
proof -
  have "re_seq (re_plus_class phone_class) re_eol s \<noteq> [] \<longleftrightarrow>
        (\<exists>r\<in>set (re_plus_class phone_class s). r = [] \<or> r = [10])"
    by (simp only: re_seq_nonempty re_eol_nonempty)
  also have "\<dots> \<longleftrightarrow> s \<noteq> [] \<and> list_all phone_class s"
    using phone_class_newline by (rule re_plus_class_to_end)
  finally show ?thesis .
qed

lemma digit_then_tail:
  "re_seq (re_class re_digit) (re_seq (re_plus_class phone_class) re_eol) s \<noteq> [] \<longleftrightarrow>
   (case s of [] \<Rightarrow> False | d # rest \<Rightarrow> re_digit d \<and> rest \<noteq> [] \<and> list_all phone_class rest)"
proof (cases s)
  case Nil
  then show ?thesis by (simp add: re_seq_nonempty[of "re_class re_digit"] re_class_def)
next
  case (Cons d rest)
  then show ?thesis
    by (simp add: re_seq_nonempty[of "re_class re_digit"] re_class_def tail_matches)
qed

lemma plus_not_digit: "\<not> re_digit 43"
  by (simp add: re_digit_def in_ranges_def unicode_decimal_digits_def)

lemma phone_number_pattern_iff:
  "re_match phone_number_pattern s \<longleftrightarrow> phone_format phone_class s"
proof -
  let ?T = "re_seq (re_class re_digit) (re_seq (re_plus_class phone_class) re_eol)"
  have "re_match phone_number_pattern s \<longleftrightarrow>
        (\<exists>r\<in>set (re_opt (re_char 43) s). ?T r \<noteq> [])"
    by (simp add: re_match_def phone_number_pattern_def re_seq_nonempty[of re_bol]
        re_seq_nonempty[of "re_opt (re_char 43)"] re_bol_def)
  also have "\<dots> \<longleftrightarrow> phone_format phone_class s"
  proof (cases s)
    case Nil
    then show ?thesis
      by (simp add: re_opt_def re_char_def phone_format_def digit_then_tail)
  next
    case (Cons c cs)
    show ?thesis
    proof (cases "c = 43")
      case True
      then show ?thesis using Cons plus_not_digit
        by (simp add: re_opt_def re_char_def phone_format_def digit_then_tail)
    next
      case False
      then show ?thesis using Cons
        by (simp add: re_opt_def re_char_def phone_format_def digit_then_tail)
    qed
  qed
  finally show ?thesis .
qed

lemma str_eq_iff: "str a = str b \<longleftrightarrow> a = b"
  by (simp add: str_def inj_map_eq_map inj_on_def)

lemma str_in_image: "str a \<in> str ` A \<longleftrightarrow> a \<in> A"
  by (auto simp: str_eq_iff)

lemma example_decimal: "decimal_places 150000 2 = 0"
  by (simp add: numeral_2_eq_2)

lemmas class_defs = phone_class_def re_digit_def re_space_def in_ranges_def
  unicode_decimal_digits_def unicode_whitespace_def

lemma example_phone_number:
  "validate_phone_number (VStr (str ''+49 30-1234'')) = Inr (VStr (str ''+49 30-1234''))"
  by (simp add: validate_phone_number_def phone_number_pattern_iff phone_format_def class_defs
      str_def)




section \<open>Currency codes\<close>

lemma validate_currency_code_cases:
  "validate_currency_code e v = Inr v \<and> (\<exists>c. v = VStr c \<and> c \<in> set (env_Currency e))
   \<or> validate_currency_code e v = Inl (ValueError ''Invalid ISO 4217 currency code'')
     \<and> v \<notin> VStr ` set (env_Currency e)"
  by (cases v) (auto simp: validate_currency_code_def Currency_def)

lemma validators_of_ContractPydantic:
  "validators_of (ContractPydantic e) n =
     (if n = ''currency_code'' then [validate_currency_code e] else [])"
  by (simp add: validators_of_def ContractPydantic_def)

lemma ContractPydantic_no_raise:
  "validate_field e (ContractPydantic e) fld body \<noteq> Raised x"
proof
  assume r: "validate_field e (ContractPydantic e) fld body = Raised x"
  obtain n t dflt where fld: "fld = (n, t, dflt)" by (cases fld)
  from r fld obtain v where "run_validators (validators_of (ContractPydantic e) n) v = Inl x"
    using validate_field_raised by blast
  moreover from r fld have "\<And>msg. x \<noteq> ValueError msg"
    by (auto simp: validate_field_def split: option.splits if_splits sum.splits exn.splits)
  ultimately show False
    using validate_currency_code_cases[of e v]
    by (auto simp: validators_of_ContractPydantic split: if_splits sum.splits)
qed

lemma currency_code_field: "required ''currency_code'' TStr \<in> set (model_fields (ContractPydantic e))"
  by (simp add: ContractPydantic_def)

lemma currency_code_invalid:
  assumes "body ''currency_code'' \<notin> Some ` VStr ` set (env_Currency e)"
  shows "validate_field e (ContractPydantic e) (required ''currency_code'' TStr) body = Invalid"
proof (cases "body ''currency_code''")
  case None
  then show ?thesis by (simp add: validate_field_def required_def)
next
  case (Some v)
  with assms have "v \<notin> VStr ` set (env_Currency e)" by auto
  with validate_currency_code_cases[of e v]
  have "validate_currency_code e v = Inl (ValueError ''Invalid ISO 4217 currency code'')" by auto
  with Some show ?thesis
    by (simp add: validate_field_def required_def validators_of_ContractPydantic)
qed

text \<open>
  C1 (as amended). Contract creation rejects every body whose \<^verbatim>\<open>currency_code\<close> is not a
  code of the \<^verbatim>\<open>iso4217\<close> table behind \<^verbatim>\<open>Currency\<close> (a code that is not listed, a value
  that is not a string, a missing key) with \<open>VALIDATION_ERROR\<close>, before any record is
  created: the data manager is not called and the session is the one the request came
  with. A code of the table passes the currency rule.
\<close>

theorem create_contract_rejects_unlisted_currency:
  "(contract_data ''currency_code'' \<notin> Some ` VStr ` set (env_Currency e) \<longrightarrow>
      create_contract e contract_data (current_user, db, data_manager) = (Inl VALIDATION_ERROR, db))
   \<and> (c \<in> set (env_Currency e) \<longrightarrow> validate_currency_code e (VStr c) = Inr (VStr c))"
proof (intro conjI impI)
  assume a: "contract_data ''currency_code'' \<notin> Some ` VStr ` set (env_Currency e)"
  from a have "validate_field e (ContractPydantic e) (required ''currency_code'' TStr) contract_data = Invalid"
    by (rule currency_code_invalid)
  with ContractPydantic_no_raise currency_code_field
  have "model_validate e (ContractPydantic e) contract_data = Inl VALIDATION_ERROR"
    by (rule model_validate_invalid)
  then show "create_contract e contract_data (current_user, db, data_manager) = (Inl VALIDATION_ERROR, db)"
    by (simp add: create_contract_def with_body_rejected)
next
  assume "c \<in> set (env_Currency e)"
  then show "validate_currency_code e (VStr c) = Inr (VStr c)"
    by (simp add: validate_currency_code_def Currency_def)
qed

lemma EURO_not_listed: "contract_body ''EURO'' ''currency_code'' \<notin> Some ` VStr ` set (env_Currency example_env)"
proof -
  have "str ''EURO'' \<notin> set (env_Currency example_env)"
    by (simp add: example_env_def iso4217_list_one_def str_eq_iff)
  then show ?thesis by (auto simp: contract_body_def)
qed

lemma USD_listed: "str ''USD'' \<in> set (env_Currency example_env)"
  by (simp add: example_env_def iso4217_list_one_def str_eq_iff)

lemma XXX_listed: "str ''XXX'' \<in> set (env_Currency example_env)"
  by (simp add: example_env_def iso4217_list_one_def str_eq_iff)

theorem create_contract_rejects_unlisted_currency_witness:
  "contract_body ''EURO'' ''currency_code'' \<notin> Some ` VStr ` set (env_Currency example_env)
   \<and> create_contract example_env (contract_body ''EURO'')
        (alice, empty_store, SpecDataManager example_env) = (Inl VALIDATION_ERROR, empty_store)
   \<and> str ''USD'' \<in> set (env_Currency example_env)
   \<and> validate_currency_code example_env (VStr (str ''USD'')) = Inr (VStr (str ''USD''))"
  using create_contract_rejects_unlisted_currency[of "contract_body ''EURO''" example_env alice
      empty_store "SpecDataManager example_env" "str ''USD''"]
    EURO_not_listed USD_listed
  by simp

text \<open>
  C1 as stated fails on its example: \<^verbatim>\<open>XXX\<close> is the code ISO 4217 assigns to
  transactions without a currency, it is in the table, and a contract with it is created.
\<close>

theorem create_contract_XXX_counterexample:
  "fst (create_contract example_env (contract_body ''XXX'')
          (alice, empty_store, SpecDataManager example_env)) = Inr [''contract_id'' \<mapsto> VInt 1]
   \<and> table (snd (create_contract example_env (contract_body ''XXX'')
          (alice, empty_store, SpecDataManager example_env))) Contract 1 \<noteq> None"
  using XXX_listed
  by (simp add: create_contract_def eval_defs ContractPydantic_def contract_body_def
      validate_currency_code_def Currency_def alice_def example_decimal)

section \<open>Accommodations\<close>

text \<open>
  C6. The accommodation routes apply no ownership check: for every data manager, every
  session, every accommodation id and body, and every two authenticated users, read,
  update and delete give the same result and leave the same session whichever of the two
  performs them. The current user is never passed to the data manager.
\<close>

theorem accommodation_routes_ignore_actor:
  "get_accommodation accommodation_id (actor1, db, data_manager)
     = get_accommodation accommodation_id (actor2, db, data_manager)
   \<and> update_accommodation e accommodation_id accommodation_data (actor1, db, data_manager)
     = update_accommodation e accommodation_id accommodation_data (actor2, db, data_manager)
   \<and> delete_accommodation accommodation_id (actor1, db, data_manager)
     = delete_accommodation accommodation_id (actor2, db, data_manager)"
  by (simp add: get_accommodation_def update_accommodation_def delete_accommodation_def)

section \<open>Event validators\<close>

lemma py_simps:
  "py_test p (Inr y) = Inr (p y)" "py_test p (Inl x) = Inl x"
  "py_and (Inr True) b = b" "py_and (Inr False) b = Inr False" "py_and (Inl x) b = Inl x"
  "py_or (Inr True) b = Inr True" "py_or (Inr False) b = b" "py_or (Inl x) b = Inl x"
  by (simp_all add: py_test_def py_and_def py_or_def)

lemma attr_simps:
  "attr_hour (VTime t) = Inr (hour t)" "attr_hour (VDateTime d t) = Inr (hour t)"
  "attr_hour VNone = Inl AttributeError"
  "attr_minute (VTime t) = Inr (minute t)" "attr_minute (VDateTime d t) = Inr (minute t)"
  "attr_minute VNone = Inl AttributeError"
  "truthy (VTime t)" "truthy (VDateTime d t)" "\<not> truthy VNone"
  by (simp_all add: attr_hour_def attr_minute_def truthy_def)

lemma validate_time_range_time:
  assumes "v = VTime t \<or> v = VDateTime d t"
  shows "validate_time_range v =
     (if hour t < 0 \<or> hour t > 23 \<or> minute t < 0 \<or> minute t > 59
      then Inl (ValueError ''Time values must be within a valid 24-hour range'')
      else Inr v)"
  using assms
  by (cases "hour t < 0"; cases "hour t > 23"; cases "minute t < 0"; cases "minute t > 59")
    (auto simp: validate_time_range_def py_simps attr_simps)

lemma validate_time_range_None: "validate_time_range VNone = Inl AttributeError"
  by (simp add: validate_time_range_def py_simps attr_simps)

lemma validate_time_range_quiet:
  assumes "v = VTime t \<or> v = VDateTime d t"
  shows "validate_time_range v = Inr v
       \<or> validate_time_range v = Inl (ValueError ''Time values must be within a valid 24-hour range'')"
  using validate_time_range_time[OF assms] by simp

lemma validate_duration_timedelta:
  "validate_duration (VTimedelta us) =
     (if us \<le> 0 then Inl (ValueError ''Duration must be a positive time interval'')
      else Inr (VTimedelta us))"
  by (simp add: validate_duration_def py_simps total_seconds_def)

lemma validate_duration_quiet:
  "validate_duration (VTimedelta us) = Inr (VTimedelta us)
     \<or> validate_duration (VTimedelta us) = Inl (ValueError ''Duration must be a positive time interval'')"
  by (simp add: validate_duration_timedelta)

lemma validate_future_date_quiet:
  "validate_future_date e (VDate d) = Inr (VDate d)
     \<or> validate_future_date e (VDate d) = Inl (ValueError ''Date must be today or in the future'')"
  by (simp add: validate_future_date_def Let_def)

lemma validators_of_EventPydantic:
  "validators_of (EventPydantic e) n =
     (if n \<in> set [''start'', ''arrive'', ''stage_set'', ''stage_check'', ''catering_open'',
                   ''catering_close'', ''meal_time''] then [validate_time_range] else [])
     @ (if n = ''duration'' then [validate_duration] else [])
     @ (if n = ''date'' then [validate_future_date e] else [])"
  by (simp add: validators_of_def EventPydantic_def)


lemma EventPydantic_field_types:
  assumes "(n, t, dflt) \<in> set (model_fields (EventPydantic e))"
  shows "(n = ''start'' \<longrightarrow> t = TTime)
       \<and> (n \<in> set [''arrive'', ''stage_set'', ''stage_check'', ''catering_open'', ''catering_close'',
                     ''meal_time''] \<longrightarrow> t = TOptional TTime \<or> t = TOptional TDateTime)
       \<and> (n = ''duration'' \<longrightarrow> t = TTimedelta)
       \<and> (n = ''date'' \<longrightarrow> t = TDate)"
  using assms
  by (auto simp: EventPydantic_def required_def defaulted_def)


lemma validators_of_EventPydantic_cases:
  "validators_of (EventPydantic e) ''start'' = [validate_time_range]"
  "validators_of (EventPydantic e) ''duration'' = [validate_duration]"
  "validators_of (EventPydantic e) ''date'' = [validate_future_date e]"
  "n \<in> set [''arrive'', ''stage_set'', ''stage_check'', ''catering_open'', ''catering_close'',
      ''meal_time''] \<Longrightarrow> validators_of (EventPydantic e) n = [validate_time_range]"
  "n \<noteq> ''start'' \<Longrightarrow> n \<notin> set [''arrive'', ''stage_set'', ''stage_check'', ''catering_open'',
      ''catering_close'', ''meal_time''] \<Longrightarrow> n \<noteq> ''duration'' \<Longrightarrow> n \<noteq> ''date''
    \<Longrightarrow> validators_of (EventPydantic e) n = []"
      apply (simp add: validators_of_EventPydantic)
     apply (simp add: validators_of_EventPydantic)
    apply (simp add: validators_of_EventPydantic)
   apply (simp add: validators_of_EventPydantic, elim disjE; simp)
  apply (simp add: validators_of_EventPydantic)
  done

lemma EventPydantic_no_raise:
  assumes nn: "list_all (\<lambda>f. body f \<noteq> Some VNone)
      [''arrive'', ''stage_set'', ''stage_check'', ''catering_open'', ''catering_close'', ''meal_time'']"
    and mem: "fld \<in> set (model_fields (EventPydantic e))"
  shows "validate_field e (EventPydantic e) fld body \<noteq> Raised x"
proof
  assume r: "validate_field e (EventPydantic e) fld body = Raised x"
  obtain n t dflt where fld: "fld = (n, t, dflt)" by (cases fld)
  from r fld obtain v where v1: "body n = Some v" and v2: "type_ok e t v"
    and run: "run_validators (validators_of (EventPydantic e) n) v = Inl x"
    using validate_field_raised by blast
  from r fld have "\<forall>msg. x \<noteq> ValueError msg"
    by (auto simp: validate_field_def split: option.splits if_splits sum.splits exn.splits)
  then have nv: "x = TypeError \<or> x = AttributeError \<or> x = ResponseValidationError"
    by (cases x) simp_all
  from mem fld have mem': "(n, t, dflt) \<in> set (model_fields (EventPydantic e))" by simp
  note types = EventPydantic_field_types[OF mem']
  define six where "six = set [''arrive'', ''stage_set'', ''stage_check'', ''catering_open'',
    ''catering_close'', ''meal_time'']"
  have quiet: "validate_time_range v \<noteq> Inl x" if "v = VTime tm \<or> v = VDateTime d tm" for tm d
    using validate_time_range_quiet[OF that] nv by auto
  consider (start) "n = ''start''" | (six) "n \<in> six" | (duration) "n = ''duration''"
    | (date) "n = ''date''"
    | (other) "n \<noteq> ''start''" "n \<notin> six" "n \<noteq> ''duration''" "n \<noteq> ''date''"
    by blast
  then show False
  proof cases
    case start
    with types have "t = TTime" by simp
    with v2 obtain tm where "v = VTime tm" by (cases v) simp_all
    then have "validate_time_range v \<noteq> Inl x" using quiet by blast
    moreover from run start have "validate_time_range v = Inl x"
      by (simp add: validators_of_EventPydantic_cases(1) split: sum.splits)
    ultimately show False by simp
  next
    case six
    then have n6: "n \<in> set [''arrive'', ''stage_set'', ''stage_check'', ''catering_open'',
      ''catering_close'', ''meal_time'']" by (simp add: six_def)
    with nn have "body n \<noteq> Some VNone" unfolding list_all_iff by blast
    with v1 have "v \<noteq> VNone" by simp
    moreover from types n6 have "t = TOptional TTime \<or> t = TOptional TDateTime" by blast
    ultimately obtain tm d where "v = VTime tm \<or> v = VDateTime d tm"
      using v2 by (cases v) auto
    then have "validate_time_range v \<noteq> Inl x" by (rule quiet)
    moreover from run have "validate_time_range v = Inl x"
      by (simp add: validators_of_EventPydantic_cases(4)[OF n6] split: sum.splits)
    ultimately show False by simp
  next
    case duration
    with types have "t = TTimedelta" by simp
    with v2 obtain us where "v = VTimedelta us" by (cases v) simp_all
    moreover from run duration have "validate_duration v = Inl x"
      by (simp add: validators_of_EventPydantic_cases(2) split: sum.splits)
    ultimately show False using validate_duration_quiet[of us] nv by auto
  next
    case date
    with types have "t = TDate" by simp
    with v2 obtain d where "v = VDate d" by (cases v) simp_all
    moreover from run date have "validate_future_date e v = Inl x"
      by (simp add: validators_of_EventPydantic_cases(3) split: sum.splits)
    ultimately show False using validate_future_date_quiet[of e d] nv by auto
  next
    case other
    then have "validators_of (EventPydantic e) n = []"
      by (simp add: validators_of_EventPydantic_cases(5) six_def)
    with run show False by simp
  qed
qed

lemma date_trichotomy: "date_lt a b \<or> a = b \<or> date_lt b (a::date)"
  by (cases a; cases b) (auto simp: date_lt_def)

lemma date_lt_irrefl: "\<not> date_lt a a"
  by (simp add: date_lt_def)

lemma date_lt_asym: "date_lt a b \<Longrightarrow> \<not> date_lt b a"
  by (auto simp: date_lt_def)

lemma validate_future_date_exact:
  "validate_future_date e (VDate d) =
     (if d = env_today e \<or> date_lt (env_today e) d then Inr (VDate d)
      else Inl (ValueError ''Date must be today or in the future''))"
  using date_trichotomy[of d "env_today e"] date_lt_irrefl[of d] date_lt_asym[of d "env_today e"]
  by (auto simp: validate_future_date_def Let_def)

lemma date_field: "required ''date'' TDate \<in> set (model_fields (EventPydantic e))"
  by (simp add: EventPydantic_def)

lemma past_date_invalid:
  assumes "body ''date'' = Some (VDate d)" and "date_lt d (env_today e)"
  shows "validate_field e (EventPydantic e) (required ''date'' TDate) body = Invalid"
  using assms
  by (simp add: validate_field_def required_def validators_of_EventPydantic_cases(3)
      validate_future_date_def)

text \<open>
  The date rule alone accepts exactly the dates that are today or later, with today read
  from the clock when the body is validated, and a date strictly before today is the
  validator's \<open>ValueError\<close>. The creation of an event with such a date ends with
  \<open>VALIDATION_ERROR\<close> and the session untouched when the body sets none of the optional
  time fields to null.
\<close>

lemma event_date_today_or_later:
  "validate_future_date e (VDate d) =
     (if d = env_today e \<or> date_lt (env_today e) d then Inr (VDate d)
      else Inl (ValueError ''Date must be today or in the future''))
   \<and> (date_lt d (env_today e) \<longleftrightarrow> \<not> (d = env_today e \<or> date_lt (env_today e) d))
   \<and> (date_lt d (env_today e) \<and> event_data ''date'' = Some (VDate d)
        \<and> list_all (\<lambda>f. event_data f \<noteq> Some VNone)
             [''arrive'', ''stage_set'', ''stage_check'', ''catering_open'', ''catering_close'',
              ''meal_time'']
      \<longrightarrow> create_event e event_data (current_user, db, data_manager) = (Inl VALIDATION_ERROR, db))"
proof (intro conjI impI)
  show "validate_future_date e (VDate d) =
     (if d = env_today e \<or> date_lt (env_today e) d then Inr (VDate d)
      else Inl (ValueError ''Date must be today or in the future''))"
    by (rule validate_future_date_exact)
  show "date_lt d (env_today e) \<longleftrightarrow> \<not> (d = env_today e \<or> date_lt (env_today e) d)"
    using date_trichotomy[of d "env_today e"] date_lt_irrefl[of d] date_lt_asym[of d "env_today e"]
    by auto
next
  assume a: "date_lt d (env_today e) \<and> event_data ''date'' = Some (VDate d)
        \<and> list_all (\<lambda>f. event_data f \<noteq> Some VNone)
             [''arrive'', ''stage_set'', ''stage_check'', ''catering_open'', ''catering_close'',
              ''meal_time'']"
  then have nn: "list_all (\<lambda>f. event_data f \<noteq> Some VNone)
             [''arrive'', ''stage_set'', ''stage_check'', ''catering_open'', ''catering_close'',
              ''meal_time'']" by simp
  from a have inv: "validate_field e (EventPydantic e) (required ''date'' TDate) event_data = Invalid"
    by (simp add: past_date_invalid)
  have "model_validate e (EventPydantic e) event_data = Inl VALIDATION_ERROR"
    using EventPydantic_no_raise[OF nn] date_field inv by (rule model_validate_invalid)
  then show "create_event e event_data (current_user, db, data_manager) = (Inl VALIDATION_ERROR, db)"
    by (simp add: create_event_def with_body_rejected)
qed

lemma event_body_no_nulls:
  "list_all (\<lambda>f. event_body d f \<noteq> Some VNone)
     [''arrive'', ''stage_set'', ''stage_check'', ''catering_open'', ''catering_close'', ''meal_time'']"
  by (simp add: event_body_def)

lemma example_store_contract:
  "\<exists>c. table example_store Contract 1 = Some c \<and> owner c = Some 1 \<and> \<not> is_disabled c"
  by (simp add: example_store_def is_disabled_def)

lemma example_today: "env_today example_env = \<lparr>year = 2026, month = 11, day = 3\<rparr>"
  by (simp add: example_env_def)

lemma event_body_validates:
  "\<exists>m. model_validate example_env (EventPydantic example_env)
          (event_body \<lparr>year = 2026, month = 11, day = 3\<rparr>) = Inr m
       \<and> field_values m ''contract_id'' = Some (VInt 1)"
  by (simp add: eval_defs EventPydantic_def event_body_def validate_time_range_time
      validate_duration_timedelta validate_future_date_exact example_today)


lemma event_date_today_or_later_example:
  "(date_lt \<lparr>year = 2026, month = 11, day = 2\<rparr> (env_today example_env)
    \<and> event_body \<lparr>year = 2026, month = 11, day = 2\<rparr> ''date''
        = Some (VDate \<lparr>year = 2026, month = 11, day = 2\<rparr>)
    \<and> list_all (\<lambda>f. event_body \<lparr>year = 2026, month = 11, day = 2\<rparr> f \<noteq> Some VNone)
         [''arrive'', ''stage_set'', ''stage_check'', ''catering_open'', ''catering_close'',
          ''meal_time''])
   \<and> create_event example_env (event_body \<lparr>year = 2026, month = 11, day = 2\<rparr>)
        (alice, example_store, SpecDataManager example_env) = (Inl VALIDATION_ERROR, example_store)
   \<and> validate_future_date example_env (VDate \<lparr>year = 2026, month = 11, day = 3\<rparr>)
       = Inr (VDate \<lparr>year = 2026, month = 11, day = 3\<rparr>)
   \<and> fst (create_event example_env (event_body \<lparr>year = 2026, month = 11, day = 3\<rparr>)
        (alice, example_store, SpecDataManager example_env)) = Inr [''event_id'' \<mapsto> VInt 1]"
proof -
  have past: "date_lt \<lparr>year = 2026, month = 11, day = 2\<rparr> (env_today example_env)"
    by (simp add: example_today date_lt_def)
  have body: "event_body \<lparr>year = 2026, month = 11, day = 2\<rparr> ''date''
       = Some (VDate \<lparr>year = 2026, month = 11, day = 2\<rparr>)"
    by (simp add: event_body_def)
  have hyp: "date_lt \<lparr>year = 2026, month = 11, day = 2\<rparr> (env_today example_env)
    \<and> event_body \<lparr>year = 2026, month = 11, day = 2\<rparr> ''date''
        = Some (VDate \<lparr>year = 2026, month = 11, day = 2\<rparr>)
    \<and> list_all (\<lambda>f. event_body \<lparr>year = 2026, month = 11, day = 2\<rparr> f \<noteq> Some VNone)
         [''arrive'', ''stage_set'', ''stage_check'', ''catering_open'', ''catering_close'',
          ''meal_time'']"
    by (rule conjI[OF past], rule conjI[OF body], rule event_body_no_nulls)
  have rejected: "create_event example_env (event_body \<lparr>year = 2026, month = 11, day = 2\<rparr>)
        (alice, example_store, SpecDataManager example_env) = (Inl VALIDATION_ERROR, example_store)"
    by (rule event_date_today_or_later[THEN conjunct2, THEN conjunct2, THEN mp, OF hyp])
  have today: "validate_future_date example_env (VDate \<lparr>year = 2026, month = 11, day = 3\<rparr>)
       = Inr (VDate \<lparr>year = 2026, month = 11, day = 3\<rparr>)"
    using event_date_today_or_later[where e = example_env
        and d = "\<lparr>year = 2026, month = 11, day = 3\<rparr>", THEN conjunct1]
    by (simp add: example_today)
  have created: "fst (create_event example_env (event_body \<lparr>year = 2026, month = 11, day = 3\<rparr>)
        (alice, example_store, SpecDataManager example_env)) = Inr [''event_id'' \<mapsto> VInt 1]"
    by (simp add: create_event_def eval_defs EventPydantic_def event_body_def
        validate_time_range_time validate_duration_timedelta validate_future_date_exact
        example_today example_store_def alice_def)
  show ?thesis
    by (rule conjI[OF hyp], rule conjI[OF rejected], rule conjI[OF today], rule created)
qed

lemma null_stage_set_raises:
  "create_event e ((event_body d)(''stage_set'' \<mapsto> VNone)) (current_user, db, data_manager)
     = (Inl (UNHANDLED AttributeError), db)"
  by (cases "date_lt d (env_today e)")
    (simp_all add: create_event_def model_validate_def validate_field_def validators_of_def
      required_def defaulted_def with_body_def EventPydantic_def event_body_def
      validate_time_range_time validate_time_range_None validate_duration_timedelta
      validate_future_date_def Let_def)

text \<open>
  C4 fails on the code. The claim has the creation of an event fail with
  \<open>VALIDATION_ERROR\<close> for every date strictly before today. The body \<open>event_body d\<close> with an
  explicit \<^verbatim>\<open>"stage_set": null\<close> ends in the unhandled \<open>AttributeError\<close> of
  \<^verbatim>\<open>validate_time_range\<close> whatever the date \<open>d\<close> is, and so for every date before today:
  the error of the date rule is collected, and the exception of the next validator ends
  the validation before it is reported. The second of November 2026 is such a date on the
  third.
\<close>

theorem create_event_past_date_null_time_raises:
  "create_event e ((event_body d)(''stage_set'' \<mapsto> VNone)) (current_user, db, data_manager)
     = (Inl (UNHANDLED AttributeError), db)
   \<and> date_lt \<lparr>year = 2026, month = 11, day = 2\<rparr> (env_today example_env)
   \<and> create_event example_env
        ((event_body \<lparr>year = 2026, month = 11, day = 2\<rparr>)(''stage_set'' \<mapsto> VNone))
        (alice, example_store, SpecDataManager example_env)
      = (Inl (UNHANDLED AttributeError), example_store)
   \<and> create_event example_env
        ((event_body \<lparr>year = 2026, month = 11, day = 2\<rparr>)(''stage_set'' \<mapsto> VNone))
        (alice, example_store, SpecDataManager example_env)
      \<noteq> (Inl VALIDATION_ERROR, example_store)"
proof -
  have past: "date_lt \<lparr>year = 2026, month = 11, day = 2\<rparr> (env_today example_env)"
    by (simp add: example_today date_lt_def)
  show ?thesis
    by (simp add: null_stage_set_raises past)
qed

text \<open>
  C9 fails on the code. \<^verbatim>\<open>validate_time_range\<close> guards only its first comparison with
  \<^verbatim>\<open>time_val and\<close>: on \<^verbatim>\<open>None\<close> the next operand \<^verbatim>\<open>time_val.hour > 23\<close> is evaluated and
  raises \<open>AttributeError\<close>. An event body that is valid but for an explicit
  \<^verbatim>\<open>"stage_set": null\<close> ends in that exception, not in an event.
\<close>

theorem validate_time_range_null_raises:
  "validate_time_range VNone = Inl AttributeError
   \<and> create_event example_env
        ((event_body \<lparr>year = 2026, month = 11, day = 3\<rparr>)(''stage_set'' \<mapsto> VNone))
        (alice, example_store, SpecDataManager example_env)
      = (Inl (UNHANDLED AttributeError), example_store)
   \<and> fst (update_event example_env 1
        ((event_body \<lparr>year = 2026, month = 11, day = 3\<rparr>)(''meal_time'' \<mapsto> VNone))
        (alice, example_store, SpecDataManager example_env))
      = Inl (UNHANDLED AttributeError)"
  by (simp add: create_event_def update_event_def model_validate_def validate_field_def
      validators_of_def required_def defaulted_def with_body_def EventPydantic_def
      EventUpdatePydantic_def event_body_def validate_time_range_time validate_time_range_None
      validate_duration_timedelta validate_future_date_exact example_today)

section \<open>The projection of a user\<close>

lemma run_validators_UserNoPwdPydantic:
  "run_validators (validators_of UserNoPwdPydantic n) v = Inr w \<Longrightarrow> w = v"
  by (auto simp: validators_of_def UserNoPwdPydantic_def validate_phone_number_def
      split: if_splits val.splits sum.splits)

lemma UserNoPwdPydantic_names:
  "fst ` set (model_fields UserNoPwdPydantic) =
     {''id'', ''username'', ''type_of_entity'', ''name'', ''surname'', ''email_address'',
      ''phone_number'', ''vat_id'', ''bank_account'', ''is_active'', ''deactivation_date'',
      ''delete_at''}"
  by (simp add: UserNoPwdPydantic_def required_def defaulted_def)

text \<open>
  C8. Whatever the data manager returns for the current user, the answer of
  \<^verbatim>\<open>get_user_me\<close> has exactly the fields of \<^verbatim>\<open>UserNoPwdPydantic\<close>: id, username, the
  contact fields, the active flag and the two timestamps, each with the value the data
  manager returned for it, and no password or hashed password.
\<close>

theorem get_user_me_projection:
  assumes "get_user_me e (current_user, db, data_manager) = (Inr r, db')"
  shows "dom r = {''id'', ''username'', ''type_of_entity'', ''name'', ''surname'', ''email_address'',
      ''phone_number'', ''vat_id'', ''bank_account'', ''is_active'', ''deactivation_date'',
      ''delete_at''}
    \<and> ''password'' \<notin> dom r \<and> ''hashed_password'' \<notin> dom r
    \<and> (\<exists>u. dm_get_user_by_id data_manager (user_id current_user) db = (Inr u, db')
          \<and> (\<forall>f v. f \<in> dom r \<and> u f = Some v \<longrightarrow> r f = Some v))"
proof -
  from assms obtain u where u: "dm_get_user_by_id data_manager (user_id current_user) db = (Inr u, db')"
    and rm: "response_model e UserNoPwdPydantic u = Inr r"
    by (auto simp: get_user_me_def split: prod.splits sum.splits)
  from rm obtain m where m: "model_validate e UserNoPwdPydantic u = Inr m" and r: "r = field_values m"
    by (auto simp: response_model_def split: sum.splits)
  from m have vf: "validate_fields e UserNoPwdPydantic (model_fields UserNoPwdPydantic) u = Inr (True, m)"
    by (rule model_validate_Inr)
  then have d: "dom r = fst ` set (model_fields UserNoPwdPydantic)"
    using r by (simp add: validate_fields_dom)
  have vals: "\<forall>f v. f \<in> dom r \<and> u f = Some v \<longrightarrow> r f = Some v"
  proof (intro allI impI)
    fix f v assume fv: "f \<in> dom r \<and> u f = Some v"
    with d have mem: "f \<in> fst ` set (model_fields UserNoPwdPydantic)" by simp
    from fv have uf: "u f = Some v" by simp
    have "field_values m f = Some v"
      using vf run_validators_UserNoPwdPydantic mem uf by (rule validate_fields_values)
    with r show "r f = Some v" by simp
  qed
  from d have "dom r = {''id'', ''username'', ''type_of_entity'', ''name'', ''surname'', ''email_address'',
      ''phone_number'', ''vat_id'', ''bank_account'', ''is_active'', ''deactivation_date'',
      ''delete_at''}" by (simp only: UserNoPwdPydantic_names)
  moreover from this have "''password'' \<notin> dom r \<and> ''hashed_password'' \<notin> dom r" by simp
  ultimately show ?thesis using u vals by blast
qed

lemma stored_alice:
  "lifecycle_read User 1 (Some 1) example_store =
     (Inr ((user_body ''alice'')(''id'' \<mapsto> VInt 1, ''is_active'' \<mapsto> VBool True)), example_store)"
  by (simp add: lifecycle_read_def authorize_def example_store_def)

lemma example_email: "64 \<in> set (str ''someone@example.org'')"
  by (simp add: str_def)

lemma alice_validates:
  "\<exists>m. model_validate example_env UserNoPwdPydantic
          ((user_body ''alice'')(''id'' \<mapsto> VInt 1, ''is_active'' \<mapsto> VBool True)) = Inr m"
  by (simp add: model_validate_def validate_field_def validators_of_def required_def defaulted_def
      UserNoPwdPydantic_def user_body_def example_env_def example_phone_number example_email)

lemma example_get_user_me:
  "\<exists>r. get_user_me example_env (alice, example_store, SpecDataManager example_env)
          = (Inr r, example_store)"
proof -
  from alice_validates obtain m where
    "model_validate example_env UserNoPwdPydantic
          ((user_body ''alice'')(''id'' \<mapsto> VInt 1, ''is_active'' \<mapsto> VBool True)) = Inr m" ..
  then have "get_user_me example_env (alice, example_store, SpecDataManager example_env)
          = (Inr (field_values m), example_store)"
    by (simp add: get_user_me_def SpecDataManager_def alice_def stored_alice response_model_def)
  then show ?thesis by (rule exI[of _ "field_values m"])
qed

lemma stored_password: "\<exists>u. table example_store User 1 = Some u \<and> ''password'' \<in> dom (attrs u)"
  by (simp add: example_store_def user_body_def)

theorem get_user_me_projection_witness:
  "\<exists>r. get_user_me example_env (alice, example_store, SpecDataManager example_env)
          = (Inr r, example_store)
       \<and> dom r = {''id'', ''username'', ''type_of_entity'', ''name'', ''surname'', ''email_address'',
            ''phone_number'', ''vat_id'', ''bank_account'', ''is_active'', ''deactivation_date'',
            ''delete_at''}
       \<and> ''password'' \<notin> dom r
       \<and> (\<exists>u. table example_store User 1 = Some u \<and> ''password'' \<in> dom (attrs u))"
proof -
  from example_get_user_me obtain r where
    r: "get_user_me example_env (alice, example_store, SpecDataManager example_env)
          = (Inr r, example_store)" ..
  note p = get_user_me_projection[OF r]
  have c1: "dom r = {''id'', ''username'', ''type_of_entity'', ''name'', ''surname'', ''email_address'',
            ''phone_number'', ''vat_id'', ''bank_account'', ''is_active'', ''deactivation_date'',
            ''delete_at''}"
    by (rule p[THEN conjunct1])
  have c2: "''password'' \<notin> dom r"
    by (rule p[THEN conjunct2, THEN conjunct1])
  show ?thesis
    by (rule exI[of _ r], rule conjI[OF r], rule conjI[OF c1], rule conjI[OF c2], rule stored_password)
qed

section \<open>The lifecycle manager\<close>

lemma validate_fields_set:
  assumes "validate_fields e M flds body = Inr (ok, m)"
  shows "model_fields_set m \<subseteq> fst ` set flds \<inter> dom body \<inter> dom (field_values m)"
  using assms
proof (induction flds arbitrary: ok m)
  case Nil
  then show ?case by auto
next
  case (Cons f fs)
  from Cons.prems obtain ok' m' where rec: "validate_fields e M fs body = Inr (ok', m')"
    by (auto split: field_result.splits sum.splits prod.splits)
  then have IH: "model_fields_set m' \<subseteq> fst ` set fs \<inter> dom body \<inter> dom (field_values m')"
    by (rule Cons.IH)
  obtain n t dflt where f: "f = (n, t, dflt)" by (cases f)
  show ?case
  proof (cases "validate_field e M f body")
    case Invalid
    with Cons.prems rec IH show ?thesis by auto
  next
    case (Raised x)
    with Cons.prems show ?thesis by simp
  next
    case (Default d)
    with Cons.prems rec IH show ?thesis by auto
  next
    case (Given w)
    then have "body n \<noteq> None"
      using f by (auto simp: validate_field_def split: option.splits)
    with Given Cons.prems rec IH f show ?thesis by auto
  qed
qed

lemma merge_payload_attrs:
  assumes "model_fields_set m \<subseteq> dom (field_values m)"
  shows "attrs (merge_payload m ent) f =
           (if f \<in> model_fields_set m then field_values m f else attrs ent f)"
  using assms
  by (auto simp: merge_payload_def map_add_def restrict_map_def split: option.splits)

lemma lifecycle_update_cases:
  assumes "lifecycle_update k i m actor s = (r, s')"
  shows "(s' = s \<and> (\<exists>err. r = Inl err))
       \<or> (\<exists>ent. table s k i = Some ent \<and> authorize s actor k OpUpdate ent
             \<and> \<not> (k = Contract \<and> is_disabled ent)
             \<and> r = Inr (attrs (merge_payload m ent)) \<and> s' = put k i (merge_payload m ent) s)"
  using assms
  by (auto simp: lifecycle_update_def split: option.splits if_splits)

lemma lifecycle_update_succeeds:
  assumes "table s k i = Some ent" and "authorize s actor k OpUpdate ent"
    and "\<not> (k = Contract \<and> is_disabled ent)"
  shows "lifecycle_update k i m actor s
           = (Inr (attrs (merge_payload m ent)), put k i (merge_payload m ent) s)"
  using assms by (auto simp: lifecycle_update_def)

lemma with_body_cases:
  "(\<exists>err. model_validate e M body = Inl err \<and> with_body e M body db h = (Inl err, db))
   \<or> (\<exists>m. model_validate e M body = Inr m \<and> with_body e M body db h = h m)"
  by (cases "model_validate e M body") (simp_all add: with_body_def)

lemma SpecDataManager_update:
  "dm_update_user (SpecDataManager e) m i = lifecycle_update User i m (Some i)"
  "dm_update_profile (SpecDataManager e) i m a = lifecycle_update Profile i m (Some a)"
  "dm_update_contract (SpecDataManager e) i m a = lifecycle_update Contract i m (Some a)"
  "dm_update_event (SpecDataManager e) i m a = lifecycle_update Event i m (Some a)"
  "dm_update_accommodation (SpecDataManager e) i m = lifecycle_update Accommodation i m None"
  by (simp_all add: SpecDataManager_def)

lemma validators_of_ContractUpdatePydantic:
  "validators_of (ContractUpdatePydantic e) n =
     (if n = ''currency_code'' then [validate_currency_code e] else [])"
  by (simp add: validators_of_def ContractUpdatePydantic_def)

lemma ContractUpdatePydantic_no_raise:
  "validate_field e (ContractUpdatePydantic e) fld body \<noteq> Raised x"
proof
  assume r: "validate_field e (ContractUpdatePydantic e) fld body = Raised x"
  obtain n t dflt where fld: "fld = (n, t, dflt)" by (cases fld)
  from r fld obtain v where "run_validators (validators_of (ContractUpdatePydantic e) n) v = Inl x"
    using validate_field_raised by blast
  moreover from r fld have "\<And>msg. x \<noteq> ValueError msg"
    by (auto simp: validate_field_def split: option.splits if_splits sum.splits exn.splits)
  ultimately show False
    using validate_currency_code_cases[of e v]
    by (auto simp: validators_of_ContractUpdatePydantic split: if_splits sum.splits)
qed

lemma ProfilePydantic_no_raise:
  "validate_field e ProfilePydantic fld body \<noteq> Raised x"
proof
  assume r: "validate_field e ProfilePydantic fld body = Raised x"
  obtain n t dflt where fld: "fld = (n, t, dflt)" by (cases fld)
  from r fld obtain v where "run_validators (validators_of ProfilePydantic n) v = Inl x"
    using validate_field_raised by blast
  then show False by (simp add: validators_of_def ProfilePydantic_def)
qed

lemma missing_required_invalid:
  "body n = None \<Longrightarrow> validate_field e M (required n t) body = Invalid"
  by (simp add: validate_field_def required_def)

lemma ContractUpdatePydantic_required:
  assumes "n \<in> set [''name'', ''offeree_id'', ''total_fee'', ''currency_code'', ''upon_signing'',
      ''upon_completion'', ''payment_method'']"
  shows "\<exists>t. required n t \<in> set (model_fields (ContractUpdatePydantic e))"
proof -
  from assms have "n = ''name'' \<or> n = ''offeree_id'' \<or> n = ''total_fee'' \<or> n = ''currency_code''
      \<or> n = ''upon_signing'' \<or> n = ''upon_completion'' \<or> n = ''payment_method''"
    by simp
  then show ?thesis
  proof (elim disjE)
    assume "n = ''name''"
    then have "required n (TOptional TStr) \<in> set (model_fields (ContractUpdatePydantic e))"
      by (simp add: ContractUpdatePydantic_def)
    then show ?thesis ..
  next
    assume "n = ''offeree_id''"
    then have "required n (TOptional TInt) \<in> set (model_fields (ContractUpdatePydantic e))"
      by (simp add: ContractUpdatePydantic_def)
    then show ?thesis ..
  next
    assume "n = ''total_fee''"
    then have "required n (TOptional (TDecimal 2)) \<in> set (model_fields (ContractUpdatePydantic e))"
      by (simp add: ContractUpdatePydantic_def)
    then show ?thesis ..
  next
    assume "n = ''currency_code''"
    then have "required n (TOptional TStr) \<in> set (model_fields (ContractUpdatePydantic e))"
      by (simp add: ContractUpdatePydantic_def)
    then show ?thesis ..
  next
    assume "n = ''upon_signing''"
    then have "required n (TOptional TInt) \<in> set (model_fields (ContractUpdatePydantic e))"
      by (simp add: ContractUpdatePydantic_def)
    then show ?thesis ..
  next
    assume "n = ''upon_completion''"
    then have "required n (TOptional TInt) \<in> set (model_fields (ContractUpdatePydantic e))"
      by (simp add: ContractUpdatePydantic_def)
    then show ?thesis ..
  next
    assume "n = ''payment_method''"
    then have "required n (TOptional TStr) \<in> set (model_fields (ContractUpdatePydantic e))"
      by (simp add: ContractUpdatePydantic_def)
    then show ?thesis ..
  qed
qed

lemma ProfilePydantic_required:
  assumes "n \<in> set [''name'', ''performance_type'', ''description'', ''bio'', ''social_media'',
      ''photos'', ''videos'', ''audios'', ''online_press'']"
  shows "\<exists>t. required n t \<in> set (model_fields ProfilePydantic)"
proof -
  from assms have "(n = ''name'' \<or> n = ''performance_type'' \<or> n = ''description'' \<or> n = ''bio'')
      \<or> (n = ''social_media'' \<or> n = ''photos'' \<or> n = ''videos'' \<or> n = ''audios''
          \<or> n = ''online_press'')"
    by simp
  then show ?thesis
  proof
    assume "n = ''name'' \<or> n = ''performance_type'' \<or> n = ''description'' \<or> n = ''bio''"
    then have "required n TStr \<in> set (model_fields ProfilePydantic)"
      by (elim disjE) (simp_all add: ProfilePydantic_def)
    then show ?thesis ..
  next
    assume "n = ''social_media'' \<or> n = ''photos'' \<or> n = ''videos'' \<or> n = ''audios''
          \<or> n = ''online_press''"
    then have "required n (TList (TOptional THttpUrl)) \<in> set (model_fields ProfilePydantic)"
      by (elim disjE) (simp_all add: ProfilePydantic_def)
    then show ?thesis ..
  qed
qed

lemma null_currency_code_invalid:
  assumes "body ''currency_code'' = Some VNone"
  shows "validate_field e (ContractUpdatePydantic e) (required ''currency_code'' (TOptional TStr)) body
           = Invalid"
  using assms
  by (simp add: validate_field_def required_def validators_of_ContractUpdatePydantic
      validate_currency_code_def Currency_def)

lemma currency_code_update_field:
  "required ''currency_code'' (TOptional TStr) \<in> set (model_fields (ContractUpdatePydantic e))"
  by (simp add: ContractUpdatePydantic_def)

text \<open>
  C2 fails on the code. The claim has every update be a partial merge, in which a field
  the payload leaves out keeps its value and an explicit null clears a field. The seven
  fields \<^verbatim>\<open>name\<close>, \<^verbatim>\<open>offeree_id\<close>, \<^verbatim>\<open>total_fee\<close>, \<^verbatim>\<open>currency_code\<close>, \<^verbatim>\<open>upon_signing\<close>,
  \<^verbatim>\<open>upon_completion\<close> and \<^verbatim>\<open>payment_method\<close> of \<^verbatim>\<open>ContractUpdatePydantic\<close> are annotated
  \<^verbatim>\<open>Optional[...]\<close> and given no default, so that they are required: every contract
  update whose body leaves one of them out ends with \<open>VALIDATION_ERROR\<close> before the data
  manager is called, whatever the data manager is, and so does every body with an
  explicit null for \<^verbatim>\<open>currency_code\<close>, which the field's validator refuses. Nothing is
  merged. \<^verbatim>\<open>update_profile\<close> validates its body against \<^verbatim>\<open>ProfilePydantic\<close>, the model of
  the creation, and rejects in the same way every body that leaves out one of its nine
  required fields.
\<close>

theorem update_rejects_partial_body:
  "((n \<in> set [''name'', ''offeree_id'', ''total_fee'', ''currency_code'', ''upon_signing'',
               ''upon_completion'', ''payment_method''] \<and> contract_data n = None)
      \<or> contract_data ''currency_code'' = Some VNone
     \<longrightarrow> update_contract e contract_id contract_data (current_user, db, data_manager)
           = (Inl VALIDATION_ERROR, db))
   \<and> (p \<in> set [''name'', ''performance_type'', ''description'', ''bio'', ''social_media'',
                ''photos'', ''videos'', ''audios'', ''online_press''] \<and> profile_data p = None
     \<longrightarrow> update_profile e profile_id profile_data (current_user, db, data_manager)
           = (Inl VALIDATION_ERROR, db))"
proof (rule conjI)
  show "(n \<in> set [''name'', ''offeree_id'', ''total_fee'', ''currency_code'', ''upon_signing'',
               ''upon_completion'', ''payment_method''] \<and> contract_data n = None)
      \<or> contract_data ''currency_code'' = Some VNone
     \<longrightarrow> update_contract e contract_id contract_data (current_user, db, data_manager)
           = (Inl VALIDATION_ERROR, db)"
  proof
    assume a: "(n \<in> set [''name'', ''offeree_id'', ''total_fee'', ''currency_code'', ''upon_signing'',
               ''upon_completion'', ''payment_method''] \<and> contract_data n = None)
      \<or> contract_data ''currency_code'' = Some VNone"
    have "model_validate e (ContractUpdatePydantic e) contract_data = Inl VALIDATION_ERROR"
      using a
    proof
      assume m: "n \<in> set [''name'', ''offeree_id'', ''total_fee'', ''currency_code'', ''upon_signing'',
               ''upon_completion'', ''payment_method''] \<and> contract_data n = None"
      then obtain t where t: "required n t \<in> set (model_fields (ContractUpdatePydantic e))"
        using ContractUpdatePydantic_required[of n e] by blast
      from m have "validate_field e (ContractUpdatePydantic e) (required n t) contract_data = Invalid"
        by (simp only: missing_required_invalid)
      with ContractUpdatePydantic_no_raise t show ?thesis by (rule model_validate_invalid)
    next
      assume "contract_data ''currency_code'' = Some VNone"
      then have "validate_field e (ContractUpdatePydantic e)
          (required ''currency_code'' (TOptional TStr)) contract_data = Invalid"
        by (rule null_currency_code_invalid)
      with ContractUpdatePydantic_no_raise currency_code_update_field
      show ?thesis by (rule model_validate_invalid)
    qed
    then show "update_contract e contract_id contract_data (current_user, db, data_manager)
           = (Inl VALIDATION_ERROR, db)"
      by (simp add: update_contract_def with_body_rejected)
  qed
next
  show "p \<in> set [''name'', ''performance_type'', ''description'', ''bio'', ''social_media'',
                ''photos'', ''videos'', ''audios'', ''online_press''] \<and> profile_data p = None
     \<longrightarrow> update_profile e profile_id profile_data (current_user, db, data_manager)
           = (Inl VALIDATION_ERROR, db)"
  proof
    assume m: "p \<in> set [''name'', ''performance_type'', ''description'', ''bio'', ''social_media'',
                ''photos'', ''videos'', ''audios'', ''online_press''] \<and> profile_data p = None"
    then obtain t where t: "required p t \<in> set (model_fields ProfilePydantic)"
      using ProfilePydantic_required[of p] by blast
    from m have "validate_field e ProfilePydantic (required p t) profile_data = Invalid"
      by (simp only: missing_required_invalid)
    with ProfilePydantic_no_raise t
    have "model_validate e ProfilePydantic profile_data = Inl VALIDATION_ERROR"
      by (rule model_validate_invalid)
    then show "update_profile e profile_id profile_data (current_user, db, data_manager)
           = (Inl VALIDATION_ERROR, db)"
      by (simp add: update_profile_def with_body_rejected)
  qed
qed

theorem update_rejects_partial_body_witness:
  "(''name'' \<in> set [''name'', ''offeree_id'', ''total_fee'', ''currency_code'', ''upon_signing'',
               ''upon_completion'', ''payment_method'']
      \<and> [''payment_method'' \<mapsto> VStr (str ''cash'')] ''name'' = None)
   \<and> update_contract example_env 1 [''payment_method'' \<mapsto> VStr (str ''cash'')]
        (alice, example_store, SpecDataManager example_env) = (Inl VALIDATION_ERROR, example_store)
   \<and> ((contract_body ''USD'')(''currency_code'' \<mapsto> VNone)) ''currency_code'' = Some VNone
   \<and> update_contract example_env 1 ((contract_body ''USD'')(''currency_code'' \<mapsto> VNone))
        (alice, example_store, SpecDataManager example_env) = (Inl VALIDATION_ERROR, example_store)
   \<and> (''bio'' \<in> set [''name'', ''performance_type'', ''description'', ''bio'', ''social_media'',
                ''photos'', ''videos'', ''audios'', ''online_press'']
      \<and> [''name'' \<mapsto> VStr (str ''Alice Quartet'')] ''bio'' = None)
   \<and> update_profile example_env 1 [''name'' \<mapsto> VStr (str ''Alice Quartet'')]
        (alice, example_store, SpecDataManager example_env) = (Inl VALIDATION_ERROR, example_store)"
proof -
  have h1: "''name'' \<in> set [''name'', ''offeree_id'', ''total_fee'', ''currency_code'', ''upon_signing'',
               ''upon_completion'', ''payment_method'']
      \<and> [''payment_method'' \<mapsto> VStr (str ''cash'')] ''name'' = None"
    by simp
  have h2: "((contract_body ''USD'')(''currency_code'' \<mapsto> VNone)) ''currency_code'' = Some VNone"
    by simp
  have h3: "''bio'' \<in> set [''name'', ''performance_type'', ''description'', ''bio'', ''social_media'',
                ''photos'', ''videos'', ''audios'', ''online_press'']
      \<and> [''name'' \<mapsto> VStr (str ''Alice Quartet'')] ''bio'' = None"
    by simp
  note missing = update_rejects_partial_body[where n = "''name''"
      and contract_data = "[''payment_method'' \<mapsto> VStr (str ''cash'')]", THEN conjunct1, THEN mp]
  note null = update_rejects_partial_body[where n = "''name''"
      and contract_data = "(contract_body ''USD'')(''currency_code'' \<mapsto> VNone)",
      THEN conjunct1, THEN mp]
  note profile = update_rejects_partial_body[where p = "''bio''"
      and profile_data = "[''name'' \<mapsto> VStr (str ''Alice Quartet'')]", THEN conjunct2, THEN mp]
  have r1: "update_contract example_env 1 [''payment_method'' \<mapsto> VStr (str ''cash'')]
        (alice, example_store, SpecDataManager example_env) = (Inl VALIDATION_ERROR, example_store)"
    by (rule missing[OF disjI1[OF h1]])
  have r2: "update_contract example_env 1 ((contract_body ''USD'')(''currency_code'' \<mapsto> VNone))
        (alice, example_store, SpecDataManager example_env) = (Inl VALIDATION_ERROR, example_store)"
    by (rule null[OF disjI2[OF h2]])
  have r3: "update_profile example_env 1 [''name'' \<mapsto> VStr (str ''Alice Quartet'')]
        (alice, example_store, SpecDataManager example_env) = (Inl VALIDATION_ERROR, example_store)"
    by (rule profile[OF h3])
  show ?thesis
    by (rule conjI[OF h1], rule conjI[OF r1], rule conjI[OF h2], rule conjI[OF r2],
        rule conjI[OF h3], rule r3)
qed

section \<open>Profiles\<close>

lemma authorize_profile:
  "authorize s (Some a) Profile OpUpdate P \<longleftrightarrow> owner P = Some a"
  "authorize s (Some a) Profile OpDelete P \<longleftrightarrow> owner P = Some a"
  by (simp_all add: authorize_def)

lemma update_profile_unfold:
  "update_profile e pid body (u, s, SpecDataManager e) =
     with_body e ProfilePydantic body s (\<lambda>m. lifecycle_update Profile pid m (Some (user_id u)) s)"
  by (simp add: update_profile_def SpecDataManager_update)

lemma delete_profile_unfold:
  "delete_profile pid (u, s, SpecDataManager e) =
     returning (\<lambda>_. [''message'' \<mapsto> VStr (str ''Profile deleted successfully'')])
       (lifecycle_delete Profile pid (Some (user_id u)) s)"
  by (simp add: delete_profile_def SpecDataManager_def)

text \<open>
  C5. For every stored profile and every authenticated user who is not its owner,
  \<^verbatim>\<open>delete_profile\<close> fails with \<open>FORBIDDEN\<close>, \<^verbatim>\<open>update_profile\<close> fails with \<open>FORBIDDEN\<close>
  for every body that passes validation (and with the validation's error otherwise),
  and both leave the store as it was. For the owner, the delete removes the profile and
  an update with a valid body returns the updated profile.
\<close>

theorem profile_update_delete_owner_only:
  assumes "table s Profile pid = Some P" and "owner P = Some ow"
  shows "(user_id u \<noteq> ow \<longrightarrow>
            delete_profile pid (u, s, SpecDataManager e) = (Inl FORBIDDEN, s)
          \<and> (\<exists>err. update_profile e pid body (u, s, SpecDataManager e) = (Inl err, s))
          \<and> (model_validate e ProfilePydantic body = Inr m \<longrightarrow>
               update_profile e pid body (u, s, SpecDataManager e) = (Inl FORBIDDEN, s)))
       \<and> (user_id u = ow \<longrightarrow>
            fst (delete_profile pid (u, s, SpecDataManager e))
              = Inr [''message'' \<mapsto> VStr (str ''Profile deleted successfully'')]
          \<and> table (snd (delete_profile pid (u, s, SpecDataManager e))) Profile pid = None
          \<and> (model_validate e ProfilePydantic body = Inr m \<longrightarrow>
               update_profile e pid body (u, s, SpecDataManager e)
                 = (Inr (attrs (merge_payload m P)), put Profile pid (merge_payload m P) s)))"
proof (intro conjI impI)
  assume other: "user_id u \<noteq> ow"
  with assms have denied: "\<And>m. lifecycle_update Profile pid m (Some (user_id u)) s = (Inl FORBIDDEN, s)"
    by (simp add: lifecycle_update_def authorize_profile)
  from other assms show "delete_profile pid (u, s, SpecDataManager e) = (Inl FORBIDDEN, s)"
    by (simp add: delete_profile_unfold lifecycle_delete_def authorize_profile returning_def)
  show "\<exists>err. update_profile e pid body (u, s, SpecDataManager e) = (Inl err, s)"
    using with_body_cases[of e ProfilePydantic body s
        "\<lambda>m. lifecycle_update Profile pid m (Some (user_id u)) s"] denied
    by (auto simp: update_profile_unfold)
  assume "model_validate e ProfilePydantic body = Inr m"
  then show "update_profile e pid body (u, s, SpecDataManager e) = (Inl FORBIDDEN, s)"
    by (simp add: update_profile_unfold with_body_def denied)
next
  assume own: "user_id u = ow"
  with assms show "fst (delete_profile pid (u, s, SpecDataManager e))
              = Inr [''message'' \<mapsto> VStr (str ''Profile deleted successfully'')]"
    by (simp add: delete_profile_unfold lifecycle_delete_def authorize_profile returning_def)
  from own assms show "table (snd (delete_profile pid (u, s, SpecDataManager e))) Profile pid = None"
    by (simp add: delete_profile_unfold lifecycle_delete_def authorize_profile returning_def)
  assume "model_validate e ProfilePydantic body = Inr m"
  with own assms show "update_profile e pid body (u, s, SpecDataManager e)
                 = (Inr (attrs (merge_payload m P)), put Profile pid (merge_payload m P) s)"
    by (simp add: update_profile_unfold with_body_def lifecycle_update_def authorize_profile)
qed

lemma example_profile:
  "table example_store Profile 1 = Some \<lparr>owner = Some 1, attrs = profile_body(''id'' \<mapsto> VInt 1)\<rparr>"
  by (simp add: example_store_def)

lemma profile_body_validates:
  "\<exists>m. model_validate example_env ProfilePydantic profile_body = Inr m"
  by (simp add: model_validate_def validate_field_def validators_of_def required_def defaulted_def
      ProfilePydantic_def profile_body_def)

theorem profile_update_delete_owner_only_witness:
  "table example_store Profile 1 = Some \<lparr>owner = Some 1, attrs = profile_body(''id'' \<mapsto> VInt 1)\<rparr>
   \<and> user_id bob \<noteq> 1 \<and> user_id alice = 1
   \<and> delete_profile 1 (bob, example_store, SpecDataManager example_env) = (Inl FORBIDDEN, example_store)
   \<and> update_profile example_env 1 profile_body (bob, example_store, SpecDataManager example_env)
       = (Inl FORBIDDEN, example_store)
   \<and> table (snd (delete_profile 1 (alice, example_store, SpecDataManager example_env))) Profile 1 = None
   \<and> (\<exists>r. fst (update_profile example_env 1 profile_body
                  (alice, example_store, SpecDataManager example_env)) = Inr r)"
proof -
  from profile_body_validates obtain m where
    m: "model_validate example_env ProfilePydantic profile_body = Inr m" ..
  have ow: "owner \<lparr>owner = Some 1, attrs = profile_body(''id'' \<mapsto> VInt 1)\<rparr> = Some 1" by simp
  have b: "user_id bob \<noteq> 1" by (simp add: bob_def)
  have a: "user_id alice = 1" by (simp add: alice_def)
  note bobs = profile_update_delete_owner_only[OF example_profile ow, where u = bob
      and e = example_env and body = profile_body and m = m, THEN conjunct1, THEN mp, OF b]
  note alices = profile_update_delete_owner_only[OF example_profile ow, where u = alice
      and e = example_env and body = profile_body and m = m, THEN conjunct2, THEN mp, OF a]
  have upd: "\<exists>r. fst (update_profile example_env 1 profile_body
                  (alice, example_store, SpecDataManager example_env)) = Inr r"
    using alices[THEN conjunct2, THEN conjunct2, THEN mp, OF m] by simp
  show ?thesis
    by (rule conjI[OF example_profile], rule conjI[OF b], rule conjI[OF a],
        rule conjI[OF bobs[THEN conjunct1]],
        rule conjI[OF bobs[THEN conjunct2, THEN conjunct2, THEN mp, OF m]],
        rule conjI[OF alices[THEN conjunct2, THEN conjunct1]], rule upd)
qed

section \<open>Users\<close>

lemma reactivation_body_validates:
  "\<exists>m. model_validate e UserUpdatePydantic reactivation_body = Inr m
       \<and> model_fields_set m = {''is_active'', ''deactivation_date''}
       \<and> field_values m ''is_active'' = Some (VBool True)
       \<and> field_values m ''deactivation_date'' = Some VNone"
  by (simp add: model_validate_def validate_field_def validators_of_def required_def defaulted_def
      UserUpdatePydantic_def reactivation_body_def insert_commute)

lemma update_user_unfold:
  "update_user e body (u, s, SpecDataManager e) =
     with_body e UserUpdatePydantic body s
       (\<lambda>m. lifecycle_update User (user_id u) m (Some (user_id u)) s)"
  by (simp add: update_user_def SpecDataManager_update)

text \<open>
  C10. The body model of \<^verbatim>\<open>update_user\<close> admits \<^verbatim>\<open>is_active\<close>, \<^verbatim>\<open>deactivation_date\<close> and
  \<^verbatim>\<open>delete_at\<close>. For every stored user, soft-deleted or not, the request of that user
  with the body \<^verbatim>\<open>{"is_active": true, "deactivation_date": null}\<close> succeeds: the updated
  user is active, its deactivation timestamp is null, every other field is as before, and
  this is the user the store holds afterwards.
\<close>

theorem soft_deleted_user_can_reactivate:
  assumes "table s User (user_id u) = Some ent" and "owner ent = Some (user_id u)"
  shows "\<exists>r s'. update_user e reactivation_body (u, s, SpecDataManager e) = (Inr r, s')
      \<and> r ''is_active'' = Some (VBool True) \<and> r ''deactivation_date'' = Some VNone
      \<and> (\<forall>f. f \<noteq> ''is_active'' \<and> f \<noteq> ''deactivation_date'' \<longrightarrow> r f = attrs ent f)
      \<and> (\<exists>ent'. table s' User (user_id u) = Some ent' \<and> attrs ent' = r)"
proof -
  from reactivation_body_validates[of e] obtain m where
    c: "model_validate e UserUpdatePydantic reactivation_body = Inr m
       \<and> model_fields_set m = {''is_active'', ''deactivation_date''}
       \<and> field_values m ''is_active'' = Some (VBool True)
       \<and> field_values m ''deactivation_date'' = Some VNone" ..
  note m = c[THEN conjunct1]
  note fs = c[THEN conjunct2, THEN conjunct1]
  note v1 = c[THEN conjunct2, THEN conjunct2, THEN conjunct1]
  note v2 = c[THEN conjunct2, THEN conjunct2, THEN conjunct2]
  let ?r = "attrs (merge_payload m ent)"
  let ?s' = "put User (user_id u) (merge_payload m ent) s"
  from assms have auth: "authorize s (Some (user_id u)) User OpUpdate ent"
    by (simp add: authorize_def)
  have upd: "update_user e reactivation_body (u, s, SpecDataManager e) = (Inr ?r, ?s')"
    using m assms(1) auth
    by (simp add: update_user_unfold with_body_def lifecycle_update_succeeds)
  from fs v1 v2 have d: "model_fields_set m \<subseteq> dom (field_values m)" by auto
  note at = merge_payload_attrs[OF d, of ent]
  have r1: "?r ''is_active'' = Some (VBool True)" using at[of "''is_active''"] fs v1 by simp
  have r2: "?r ''deactivation_date'' = Some VNone" using at[of "''deactivation_date''"] fs v2 by simp
  have r3: "\<forall>f. f \<noteq> ''is_active'' \<and> f \<noteq> ''deactivation_date'' \<longrightarrow> ?r f = attrs ent f"
    using at fs by simp
  have r4: "\<exists>ent'. table ?s' User (user_id u) = Some ent' \<and> attrs ent' = ?r"
    by (simp add: put_def)
  show ?thesis
    by (rule exI[of _ ?r], rule exI[of _ ?s'], rule conjI[OF upd], rule conjI[OF r1],
        rule conjI[OF r2], rule conjI[OF r3], rule r4)
qed

lemma soft_deleted_alice:
  "\<exists>ent. table (snd (soft_delete_user (alice, example_store, SpecDataManager example_env) VNone))
            User (user_id alice) = Some ent
       \<and> owner ent = Some (user_id alice)
       \<and> attrs ent ''deactivation_date'' = Some (env_now example_env)"
  by (simp add: soft_delete_user_def SpecDataManager_def lifecycle_soft_delete_user_def
      authorize_def put_def alice_def example_store_def Let_def)

theorem soft_deleted_user_can_reactivate_witness:
  "\<exists>ent r s'.
      table (snd (soft_delete_user (alice, example_store, SpecDataManager example_env) VNone))
        User (user_id alice) = Some ent
    \<and> owner ent = Some (user_id alice)
    \<and> attrs ent ''deactivation_date'' = Some (env_now example_env)
    \<and> update_user example_env reactivation_body
        (alice, snd (soft_delete_user (alice, example_store, SpecDataManager example_env) VNone),
         SpecDataManager example_env) = (Inr r, s')
    \<and> r ''is_active'' = Some (VBool True) \<and> r ''deactivation_date'' = Some VNone"
proof -
  let ?s = "snd (soft_delete_user (alice, example_store, SpecDataManager example_env) VNone)"
  from soft_deleted_alice obtain ent where
    c: "table ?s User (user_id alice) = Some ent \<and> owner ent = Some (user_id alice)
       \<and> attrs ent ''deactivation_date'' = Some (env_now example_env)" ..
  from soft_deleted_user_can_reactivate[OF c[THEN conjunct1] c[THEN conjunct2, THEN conjunct1],
      of example_env]
  obtain r where "\<exists>s'. update_user example_env reactivation_body (alice, ?s, SpecDataManager example_env)
        = (Inr r, s')
      \<and> r ''is_active'' = Some (VBool True) \<and> r ''deactivation_date'' = Some VNone
      \<and> (\<forall>f. f \<noteq> ''is_active'' \<and> f \<noteq> ''deactivation_date'' \<longrightarrow> r f = attrs ent f)
      \<and> (\<exists>ent'. table s' User (user_id alice) = Some ent' \<and> attrs ent' = r)" ..
  then obtain s' where d: "update_user example_env reactivation_body
        (alice, ?s, SpecDataManager example_env) = (Inr r, s')
      \<and> r ''is_active'' = Some (VBool True) \<and> r ''deactivation_date'' = Some VNone
      \<and> (\<forall>f. f \<noteq> ''is_active'' \<and> f \<noteq> ''deactivation_date'' \<longrightarrow> r f = attrs ent f)
      \<and> (\<exists>ent'. table s' User (user_id alice) = Some ent' \<and> attrs ent' = r)" ..
  show ?thesis
    by (rule exI[of _ ent], rule exI[of _ r], rule exI[of _ s'],
        rule conjI[OF c[THEN conjunct1]], rule conjI[OF c[THEN conjunct2, THEN conjunct1]],
        rule conjI[OF c[THEN conjunct2, THEN conjunct2]], rule conjI[OF d[THEN conjunct1]],
        rule conjI[OF d[THEN conjunct2, THEN conjunct1]],
        rule d[THEN conjunct2, THEN conjunct2, THEN conjunct1])
qed

section \<open>Contracts\<close>

lemma preserved_refl: "wf_store s \<Longrightarrow> preserved s s"
  by (simp add: preserved_def)

lemma preserved_trans: "preserved s s' \<Longrightarrow> preserved s' s'' \<Longrightarrow> preserved s s''"
  unfolding preserved_def by blast

lemma preserved_put:
  assumes "wf_store s" and "table s k i = Some old"
    and "k = Contract \<and> is_disabled old \<longrightarrow> is_disabled ent"
  shows "preserved s (put k i ent s)"
proof -
  have "wf_store (put k i ent s)"
    using assms(1,2) unfolding wf_store_def put_def by (auto split: if_splits)
  moreover have "\<exists>c'. table (put k i ent s) Contract j = Some c' \<and> is_disabled c'"
    if "table s Contract j = Some c \<and> is_disabled c" for j c
    using that assms(2,3) by (auto simp: put_def)
  ultimately show ?thesis unfolding preserved_def by blast
qed

lemma preserved_create:
  assumes "wf_store s"
  shows "preserved s (snd (lifecycle_create k m a s))"
proof (cases "snd (lifecycle_create k m a s) = s")
  case True
  with assms show ?thesis by (simp add: preserved_refl)
next
  case False
  define i where "i = next_id s k"
  from assms have fresh: "table s k i = None"
    unfolding wf_store_def i_def by (metis domI less_irrefl not_Some_eq)
  from False obtain ent where
    s': "snd (lifecycle_create k m a s) = (put k i ent s)\<lparr>next_id := (next_id s)(k := i + 1)\<rparr>"
    by (auto simp: lifecycle_create_def Let_def i_def split: if_splits)
  have "wf_store ((put k i ent s)\<lparr>next_id := (next_id s)(k := i + 1)\<rparr>)"
    using assms unfolding wf_store_def put_def i_def
    by (auto split: if_splits) force
  moreover have "\<exists>c'. table ((put k i ent s)\<lparr>next_id := (next_id s)(k := i + 1)\<rparr>) Contract j = Some c'
        \<and> is_disabled c'"
    if "table s Contract j = Some c \<and> is_disabled c" for j c
    using that fresh by (auto simp: put_def)
  ultimately show ?thesis unfolding preserved_def s' by blast
qed

lemma lifecycle_read_store: "snd (lifecycle_read k i a s) = s"
  by (simp add: lifecycle_read_def split: option.splits)

lemma lifecycle_contract_events_store: "snd (lifecycle_contract_events i a s) = s"
  by (simp add: lifecycle_contract_events_def split: option.splits)

lemma preserved_update:
  assumes "wf_store s"
  shows "preserved s (snd (lifecycle_update k i m a s))"
proof -
  obtain r s' where rs: "lifecycle_update k i m a s = (r, s')" by (cases "lifecycle_update k i m a s")
  from lifecycle_update_cases[OF rs] show ?thesis
  proof
    assume "s' = s \<and> (\<exists>err. r = Inl err)"
    with rs assms show ?thesis by (simp add: preserved_refl)
  next
    assume "\<exists>ent. table s k i = Some ent \<and> authorize s a k OpUpdate ent
             \<and> \<not> (k = Contract \<and> is_disabled ent)
             \<and> r = Inr (attrs (merge_payload m ent)) \<and> s' = put k i (merge_payload m ent) s"
    then obtain ent where ent: "table s k i = Some ent" and nd: "\<not> (k = Contract \<and> is_disabled ent)"
      and s': "s' = put k i (merge_payload m ent) s" by blast
    from nd have "k = Contract \<and> is_disabled ent \<longrightarrow> is_disabled (merge_payload m ent)" by blast
    with assms ent have "preserved s (put k i (merge_payload m ent) s)" by (rule preserved_put)
    with rs s' show ?thesis by simp
  qed
qed

lemma preserved_delete:
  assumes "wf_store s" and "k \<noteq> Contract"
  shows "preserved s (snd (lifecycle_delete k i a s))"
proof (cases "snd (lifecycle_delete k i a s) = s")
  case True
  with assms show ?thesis by (simp add: preserved_refl)
next
  case False
  then have s': "snd (lifecycle_delete k i a s) = s\<lparr>table := (table s)(k := (table s k)(i := None))\<rparr>"
    by (auto simp: lifecycle_delete_def split: option.splits if_splits)
  have "wf_store (s\<lparr>table := (table s)(k := (table s k)(i := None))\<rparr>)"
    using assms(1) unfolding wf_store_def by (auto split: if_splits)
  with assms(2) show ?thesis unfolding preserved_def s' by simp
qed

lemma preserved_soft_delete_user:
  assumes "wf_store s"
  shows "preserved s (snd (lifecycle_soft_delete_user e d i s))"
  using assms
  by (auto simp: lifecycle_soft_delete_user_def Let_def preserved_refl preserved_put split: option.splits)

lemma preserved_disable_contract:
  assumes "wf_store s"
  shows "preserved s (snd (lifecycle_disable_contract e i d a s))"
  using assms
  by (auto simp: lifecycle_disable_contract_def Let_def preserved_refl is_disabled_def
      split: option.splits intro!: preserved_put)

lemma snd_returning: "snd (returning f r) = snd r"
  by (cases r; cases "fst r") (auto simp: returning_def)

lemma preserved_with_body:
  assumes "wf_store s" and "\<And>m. preserved s (snd (h m))"
  shows "preserved s (snd (with_body e M body s h))"
  using assms by (cases "model_validate e M body") (simp_all add: with_body_def preserved_refl)

lemma snd_get_user_me: "snd (get_user_me e (u, s, SpecDataManager e)) = s"
  using lifecycle_read_store[of User "user_id u" "Some (user_id u)" s]
  by (auto simp: get_user_me_def SpecDataManager_def split: prod.splits sum.splits)

lemma snd_get_contract: "snd (get_contract i (u, s, SpecDataManager e)) = s"
proof -
  obtain r s' where rd: "lifecycle_read Contract i (Some (user_id u)) s = (r, s')"
    by (cases "lifecycle_read Contract i (Some (user_id u)) s")
  with lifecycle_read_store[of Contract i "Some (user_id u)" s] have s': "s' = s" by simp
  show ?thesis
    using rd s' lifecycle_contract_events_store[of i "user_id u" s]
    by (cases r) (simp_all add: get_contract_def SpecDataManager_def snd_returning)
qed

lemma serve_preserved:
  assumes "wf_store s"
  shows "preserved s (serve e (SpecDataManager e) (u, req) s)"
proof (cases req)
  case (Sign_up body)
  with assms show ?thesis
    by (simp add: sign_up_def SpecDataManager_def snd_returning preserved_with_body preserved_create)
next
  case Get_user_me
  with assms show ?thesis by (simp add: snd_get_user_me preserved_refl)
next
  case (Update_user body)
  with assms show ?thesis
    by (simp add: update_user_def SpecDataManager_def preserved_with_body preserved_update)
next
  case (Soft_delete_user at)
  with assms show ?thesis
    by (simp add: soft_delete_user_def SpecDataManager_def preserved_soft_delete_user)
next
  case (Create_profile body)
  with assms show ?thesis
    by (simp add: create_profile_def SpecDataManager_def snd_returning preserved_with_body
        preserved_create)
next
  case (Get_profile i)
  with assms show ?thesis
    by (simp add: get_profile_def SpecDataManager_def lifecycle_read_store preserved_refl)
next
  case (Update_profile i body)
  with assms show ?thesis
    by (simp add: update_profile_def SpecDataManager_def preserved_with_body preserved_update)
next
  case (Delete_profile i)
  with assms show ?thesis
    by (simp add: delete_profile_def SpecDataManager_def snd_returning preserved_delete)
next
  case (Create_contract body)
  with assms show ?thesis
    by (simp add: create_contract_def SpecDataManager_def snd_returning preserved_with_body
        preserved_create)
next
  case (Get_contract i)
  with assms show ?thesis by (simp add: snd_get_contract preserved_refl)
next
  case (Update_contract i body)
  with assms show ?thesis
    by (simp add: update_contract_def SpecDataManager_def preserved_with_body preserved_update)
next
  case (Disable_contract i at)
  with assms show ?thesis
    by (simp add: disable_contract_def SpecDataManager_def preserved_disable_contract)
next
  case (Create_event body)
  with assms show ?thesis
    by (simp add: create_event_def SpecDataManager_def snd_returning preserved_with_body
        preserved_create)
next
  case (Get_event i)
  with assms show ?thesis
    by (simp add: get_event_def SpecDataManager_def lifecycle_read_store preserved_refl)
next
  case (Update_event i body)
  with assms show ?thesis
    by (simp add: update_event_def SpecDataManager_def preserved_with_body preserved_update)
next
  case (Delete_event i)
  with assms show ?thesis
    by (simp add: delete_event_def SpecDataManager_def snd_returning preserved_delete)
next
  case (Create_accommodation body)
  with assms show ?thesis
    by (simp add: create_accommodation_def SpecDataManager_def snd_returning preserved_with_body
        preserved_create)
next
  case (Get_accommodation i)
  with assms show ?thesis
    by (simp add: get_accommodation_def SpecDataManager_def lifecycle_read_store preserved_refl)
next
  case (Update_accommodation i body)
  with assms show ?thesis
    by (simp add: update_accommodation_def SpecDataManager_def preserved_with_body preserved_update)
next
  case (Delete_accommodation i)
  with assms show ?thesis
    by (simp add: delete_accommodation_def SpecDataManager_def snd_returning preserved_delete)
qed

lemma run_preserved:
  assumes "wf_store s"
  shows "preserved s (run e (SpecDataManager e) requests s)"
  using assms
proof (induction requests arbitrary: s)
  case Nil
  then show ?case by (simp add: preserved_refl)
next
  case (Cons r rs)
  obtain u req where r: "r = (u, req)" by (cases r)
  from Cons.prems have step: "preserved s (serve e (SpecDataManager e) (u, req) s)"
    by (rule serve_preserved)
  then have "wf_store (serve e (SpecDataManager e) (u, req) s)" by (simp add: preserved_def)
  then have "preserved (serve e (SpecDataManager e) (u, req) s)
      (run e (SpecDataManager e) rs (serve e (SpecDataManager e) (u, req) s))" by (rule Cons.IH)
  with step show ?case using r by (simp add: preserved_trans)
qed

lemma wf_empty_store: "wf_store empty_store"
  by (simp add: wf_store_def empty_store_def)

lemma reachable_wf_store: "wf_store (run e (SpecDataManager e) requests empty_store)"
  using run_preserved[OF wf_empty_store] by (simp add: preserved_def)

lemma ContractUpdatePydantic_names:
  "fst ` set (model_fields (ContractUpdatePydantic e)) =
     {''name'', ''offeree_id'', ''total_fee'', ''currency_code'', ''upon_signing'',
      ''upon_completion'', ''payment_method'', ''travel_expenses'', ''accommodation_expenses'',
      ''other_expenses''}"
  by (simp add: ContractUpdatePydantic_def required_def defaulted_def)

lemma contract_update_keeps_disabled:
  assumes "model_validate e (ContractUpdatePydantic e) body = Inr m"
  shows "''disabled'' \<notin> model_fields_set m \<and> ''disabled_at'' \<notin> model_fields_set m
       \<and> attrs (merge_payload m ent) ''disabled'' = attrs ent ''disabled''
       \<and> attrs (merge_payload m ent) ''disabled_at'' = attrs ent ''disabled_at''"
proof -
  from assms have vf: "validate_fields e (ContractUpdatePydantic e)
      (model_fields (ContractUpdatePydantic e)) body = Inr (True, m)"
    by (rule model_validate_Inr)
  note sub = validate_fields_set[OF vf]
  from sub have names: "model_fields_set m \<subseteq> fst ` set (model_fields (ContractUpdatePydantic e))"
    by blast
  have "''disabled'' \<notin> fst ` set (model_fields (ContractUpdatePydantic e))"
    "''disabled_at'' \<notin> fst ` set (model_fields (ContractUpdatePydantic e))"
    by (simp_all only: ContractUpdatePydantic_names) simp_all
  with names have out: "''disabled'' \<notin> model_fields_set m" "''disabled_at'' \<notin> model_fields_set m"
    by blast+
  from sub have d: "model_fields_set m \<subseteq> dom (field_values m)" by blast
  note at = merge_payload_attrs[OF d, of ent]
  from out at[of "''disabled''"] at[of "''disabled_at''"] show ?thesis by simp
qed

lemma update_disabled_contract:
  assumes "table s Contract cid = Some c" and "is_disabled c"
  shows "\<exists>err. update_contract e cid body (u, s, SpecDataManager e) = (Inl err, s)"
proof -
  from assms have denied: "\<exists>err. lifecycle_update Contract cid m (Some (user_id u)) s = (Inl err, s)"
    for m
    by (simp add: lifecycle_update_def)
  from with_body_cases[of e "ContractUpdatePydantic e" body s
      "\<lambda>m. lifecycle_update Contract cid m (Some (user_id u)) s"]
  show ?thesis
  proof
    assume "\<exists>err. model_validate e (ContractUpdatePydantic e) body = Inl err
        \<and> with_body e (ContractUpdatePydantic e) body s
            (\<lambda>m. lifecycle_update Contract cid m (Some (user_id u)) s) = (Inl err, s)"
    then show ?thesis by (auto simp: update_contract_def SpecDataManager_update)
  next
    assume "\<exists>m. model_validate e (ContractUpdatePydantic e) body = Inr m
        \<and> with_body e (ContractUpdatePydantic e) body s
            (\<lambda>m. lifecycle_update Contract cid m (Some (user_id u)) s)
          = lifecycle_update Contract cid m (Some (user_id u)) s"
    then obtain m where "with_body e (ContractUpdatePydantic e) body s
            (\<lambda>m. lifecycle_update Contract cid m (Some (user_id u)) s)
          = lifecycle_update Contract cid m (Some (user_id u)) s" by blast
    with denied[of m] show ?thesis by (auto simp: update_contract_def SpecDataManager_update)
  qed
qed

lemma update_disabled_contract_owner:
  assumes "table s Contract cid = Some c" and "is_disabled c" and "owner c = Some (user_id u)"
    and "model_validate e (ContractUpdatePydantic e) body = Inr m"
  shows "update_contract e cid body (u, s, SpecDataManager e) = (Inl TERMINAL_STATE, s)"
  using assms
  by (simp add: update_contract_def SpecDataManager_update with_body_def lifecycle_update_def
      authorize_def)

text \<open>
  C3. Every store the public API reaches from the empty store is well-formed, and in a
  well-formed store a contract that is disabled stays disabled whatever sequence of
  requests follows, by whatever users: it is still stored and still disabled after them
  (a repeated disabling stamps \<^verbatim>\<open>disabled_at\<close> again and keeps the flag).
  An update of the disabled contract fails and leaves the store as it is, for every body
  and every user; for its owner with a body that validates the error is
  \<open>TERMINAL_STATE\<close>. Every update payload that validates, for whatever contract, sets
  neither \<^verbatim>\<open>disabled\<close> nor \<^verbatim>\<open>disabled_at\<close>, and its merge leaves both as they are.
\<close>

theorem disabled_contract_is_terminal:
  "wf_store (run e (SpecDataManager e) history empty_store)
   \<and> (wf_store s \<and> table s Contract cid = Some c \<and> is_disabled c \<longrightarrow>
        (\<exists>c'. table (run e (SpecDataManager e) requests s) Contract cid = Some c' \<and> is_disabled c')
      \<and> (\<exists>err. update_contract e cid contract_data (current_user, s, SpecDataManager e) = (Inl err, s))
      \<and> (owner c = Some (user_id current_user)
           \<and> model_validate e (ContractUpdatePydantic e) contract_data = Inr m \<longrightarrow>
         update_contract e cid contract_data (current_user, s, SpecDataManager e)
           = (Inl TERMINAL_STATE, s)))
   \<and> (model_validate e (ContractUpdatePydantic e) contract_data = Inr m \<longrightarrow>
        ''disabled'' \<notin> model_fields_set m \<and> ''disabled_at'' \<notin> model_fields_set m
      \<and> attrs (merge_payload m ent) ''disabled'' = attrs ent ''disabled''
      \<and> attrs (merge_payload m ent) ''disabled_at'' = attrs ent ''disabled_at'')"
proof (rule conjI[OF reachable_wf_store], rule conjI)
  show "wf_store s \<and> table s Contract cid = Some c \<and> is_disabled c \<longrightarrow>
        (\<exists>c'. table (run e (SpecDataManager e) requests s) Contract cid = Some c' \<and> is_disabled c')
      \<and> (\<exists>err. update_contract e cid contract_data (current_user, s, SpecDataManager e) = (Inl err, s))
      \<and> (owner c = Some (user_id current_user)
           \<and> model_validate e (ContractUpdatePydantic e) contract_data = Inr m \<longrightarrow>
         update_contract e cid contract_data (current_user, s, SpecDataManager e)
           = (Inl TERMINAL_STATE, s))"
  proof
    assume a: "wf_store s \<and> table s Contract cid = Some c \<and> is_disabled c"
    then have wf: "wf_store s" and c: "table s Contract cid = Some c" and dis: "is_disabled c"
      by simp_all
    from run_preserved[OF wf, of e requests] c dis
    have stays: "\<exists>c'. table (run e (SpecDataManager e) requests s) Contract cid = Some c'
        \<and> is_disabled c'"
      unfolding preserved_def by blast
    have fails: "\<exists>err. update_contract e cid contract_data (current_user, s, SpecDataManager e)
        = (Inl err, s)"
      using c dis by (rule update_disabled_contract)
    have terminal: "owner c = Some (user_id current_user)
           \<and> model_validate e (ContractUpdatePydantic e) contract_data = Inr m \<longrightarrow>
         update_contract e cid contract_data (current_user, s, SpecDataManager e)
           = (Inl TERMINAL_STATE, s)"
      using c dis by (simp add: update_disabled_contract_owner)
    show "(\<exists>c'. table (run e (SpecDataManager e) requests s) Contract cid = Some c' \<and> is_disabled c')
      \<and> (\<exists>err. update_contract e cid contract_data (current_user, s, SpecDataManager e) = (Inl err, s))
      \<and> (owner c = Some (user_id current_user)
           \<and> model_validate e (ContractUpdatePydantic e) contract_data = Inr m \<longrightarrow>
         update_contract e cid contract_data (current_user, s, SpecDataManager e)
           = (Inl TERMINAL_STATE, s))"
      by (rule conjI[OF stays], rule conjI[OF fails], rule terminal)
  qed
next
  show "model_validate e (ContractUpdatePydantic e) contract_data = Inr m \<longrightarrow>
        ''disabled'' \<notin> model_fields_set m \<and> ''disabled_at'' \<notin> model_fields_set m
      \<and> attrs (merge_payload m ent) ''disabled'' = attrs ent ''disabled''
      \<and> attrs (merge_payload m ent) ''disabled_at'' = attrs ent ''disabled_at''"
    by (rule impI) (rule contract_update_keeps_disabled)
qed

lemma wf_example_store: "wf_store example_store"
  by (auto simp: wf_store_def example_store_def split: if_splits)

lemma disabled_example:
  "\<exists>c. table (snd (disable_contract 1 (alice, example_store, SpecDataManager example_env) VNone))
          Contract 1 = Some c
       \<and> is_disabled c \<and> owner c = Some (user_id alice)"
  by (simp add: disable_contract_def SpecDataManager_def lifecycle_disable_contract_def
      authorize_def put_def alice_def example_store_def Let_def is_disabled_def)

lemma wf_disabled_example:
  "wf_store (snd (disable_contract 1 (alice, example_store, SpecDataManager example_env) VNone))"
  using preserved_disable_contract[OF wf_example_store, of example_env 1 VNone "user_id alice"]
  by (simp add: disable_contract_def SpecDataManager_def preserved_def)

lemma EUR_listed: "str ''EUR'' \<in> set (env_Currency example_env)"
  by (simp add: example_env_def iso4217_list_one_def str_eq_iff)

lemma contract_update_body_validates:
  "\<exists>m. model_validate example_env (ContractUpdatePydantic example_env) (contract_body ''EUR'')
          = Inr m"
  using EUR_listed
  by (simp add: model_validate_def validate_field_def validators_of_def required_def defaulted_def
      ContractUpdatePydantic_def contract_body_def validate_currency_code_def Currency_def
      example_decimal)

theorem disabled_contract_is_terminal_witness:
  "\<exists>c m.
     (wf_store (snd (disable_contract 1 (alice, example_store, SpecDataManager example_env) VNone))
      \<and> table (snd (disable_contract 1 (alice, example_store, SpecDataManager example_env) VNone))
           Contract 1 = Some c
      \<and> is_disabled c)
   \<and> (\<exists>c'. table (run example_env (SpecDataManager example_env)
               [(alice, Update_contract 1 (contract_body ''EUR'')),
                (bob, Disable_contract 1 VNone),
                (alice, Create_contract (contract_body ''USD''))]
               (snd (disable_contract 1 (alice, example_store, SpecDataManager example_env) VNone)))
             Contract 1 = Some c'
          \<and> is_disabled c')
   \<and> model_validate example_env (ContractUpdatePydantic example_env) (contract_body ''EUR'') = Inr m
   \<and> update_contract example_env 1 (contract_body ''EUR'')
        (alice, snd (disable_contract 1 (alice, example_store, SpecDataManager example_env) VNone),
         SpecDataManager example_env)
      = (Inl TERMINAL_STATE,
         snd (disable_contract 1 (alice, example_store, SpecDataManager example_env) VNone))
   \<and> ''disabled'' \<notin> model_fields_set m \<and> ''disabled_at'' \<notin> model_fields_set m"
proof -
  let ?s = "snd (disable_contract 1 (alice, example_store, SpecDataManager example_env) VNone)"
  let ?requests = "[(alice, Update_contract 1 (contract_body ''EUR'')),
                (bob, Disable_contract 1 VNone),
                (alice, Create_contract (contract_body ''USD''))]"
  from disabled_example obtain c where
    c: "table ?s Contract 1 = Some c \<and> is_disabled c \<and> owner c = Some (user_id alice)" ..
  from contract_update_body_validates obtain m where
    m: "model_validate example_env (ContractUpdatePydantic example_env) (contract_body ''EUR'')
          = Inr m" ..
  have hyp: "wf_store ?s \<and> table ?s Contract 1 = Some c \<and> is_disabled c"
    by (rule conjI[OF wf_disabled_example], rule conjI[OF c[THEN conjunct1]],
        rule c[THEN conjunct2, THEN conjunct1])
  have own: "owner c = Some (user_id alice)
      \<and> model_validate example_env (ContractUpdatePydantic example_env) (contract_body ''EUR'')
          = Inr m"
    by (rule conjI[OF c[THEN conjunct2, THEN conjunct2]], rule m)
  note t = disabled_contract_is_terminal[where e = example_env and s = ?s and cid = 1 and c = c
      and requests = ?requests and contract_data = "contract_body ''EUR''"
      and current_user = alice and m = m, THEN conjunct2]
  note terminal = t[THEN conjunct1, THEN mp, OF hyp]
  note payload = t[THEN conjunct2, THEN mp, OF m]
  show ?thesis
    by (rule exI[of _ c], rule exI[of _ m], rule conjI[OF hyp],
        rule conjI[OF terminal[THEN conjunct1]], rule conjI[OF m],
        rule conjI[OF terminal[THEN conjunct2, THEN conjunct2, THEN mp, OF own]],
        rule conjI[OF payload[THEN conjunct1]], rule payload[THEN conjunct2, THEN conjunct1])
qed

end
